theory Spec2Isabelle
  imports Main "HOL-Library.AList"
begin

section \<open>The data of \<^verbatim>\<open>terraform/context.go\<close>\<close>

text \<open>
  The file \<^verbatim>\<open>context.go\<close> drives the operations Apply, Plan and Refresh of a
  \<^verbatim>\<open>Context\<close> by walking a dependency graph and calling providers and hooks.

  Conventions of the embedding.
  \<^item> A Go map that the code iterates over (\<^verbatim>\<open>range\<close>) or measures (\<^verbatim>\<open>len\<close>) is an
    association list: the order of the list is the order in which that \<^verbatim>\<open>range\<close> visits
    the entries, which Go leaves unspecified, so every statement is made for all orders.
    Reads are \<open>map_of\<close>, writes are \<open>AList.update\<close>, \<^verbatim>\<open>delete\<close> is \<open>AList.delete\<close>.
  \<^item> A Go map that is only read and written by key or copied as a whole (the resources
    of a state, the resources of a diff, the outputs) is a map \<open>string \<rightharpoonup> 'v\<close>.
  \<^item> A pointer that may be \<^verbatim>\<open>nil\<close> is an \<open>option\<close>.
  \<^item> A Go \<^verbatim>\<open>error\<close> is a value of type \<open>error\<close>; a \<^verbatim>\<open>panic\<close> is a value of type
    \<open>panic_value\<close>, and every function that can panic returns it as a result.
  \<^item> Providers and hooks are plugins with effects. Their state is a world \<open>'w\<close> that is
    passed to every call and returned by it.
  \<^item> Fields of a record carry a prefix naming the record (\<open>rs_ID\<close> is the field
    \<^verbatim>\<open>ID\<close> of \<^verbatim>\<open>ResourceState\<close>), since several structs share field names.
\<close>

subsection \<open>Errors and panics\<close>

datatype error =
    Errorf string
  | MultiError "error list"

datatype HookAction = HookActionContinue | HookActionHalt

text \<open>
  The values the code panics with: a hook's verdict (\<^verbatim>\<open>panic(HookActionHalt)\<close>), an
  error (\<^verbatim>\<open>panic(err)\<close>), the message \<^verbatim>\<open>"Interpolate error: %s"\<close> of an error, the
  message for an unknown graph node, the message for a resource variable without count
  (with its key), and a failed type assertion \<^verbatim>\<open>.(string)\<close>.
\<close>

datatype panic_value =
    PanicHookAction HookAction
  | PanicErr error
  | PanicInterpolate error
  | PanicUnknownGraphNode
  | PanicNonExistentVar string
  | PanicTypeAssertion

subsection \<open>Strings\<close>

text \<open>\<^verbatim>\<open>strings.Index(s, ".")\<close> for a one-character separator: the index of its first
  occurrence, \<open>None\<close> for Go's \<^verbatim>\<open>-1\<close>.\<close>

fun strings_Index :: "string \<Rightarrow> char \<Rightarrow> nat option" where
  "strings_Index [] c = None"
| "strings_Index (x # xs) c =
     (if x = c then Some 0 else map_option Suc (strings_Index xs c))"

text \<open>\<^verbatim>\<open>strings.Join(values, sep)\<close>.\<close>

fun strings_Join :: "string list \<Rightarrow> string \<Rightarrow> string" where
  "strings_Join [] sep = []"
| "strings_Join [x] sep = x"
| "strings_Join (x # y # ys) sep = x @ sep @ strings_Join (y # ys) sep"

text \<open>The verb \<^verbatim>\<open>%d\<close> of \<^verbatim>\<open>fmt.Sprintf\<close> on a non-negative integer.\<close>

definition digit_char :: "nat \<Rightarrow> char" where
  "digit_char n = ''0123456789'' ! n"

function string_of_nat :: "nat \<Rightarrow> string" where
  "string_of_nat n =
     (if n < 10 then [digit_char n]
      else string_of_nat (n div 10) @ [digit_char (n mod 10)])"
  by pat_completeness auto
termination
  by (relation "measure id") auto

declare string_of_nat.simps [simp del]

definition quoted :: "string \<Rightarrow> string" where
  "quoted s = [CHR 0x27] @ s @ [CHR 0x27]"

subsection \<open>Configuration\<close>

text \<open>
  \<^verbatim>\<open>config.ResourceVariable\<close> and \<^verbatim>\<open>config.UserVariable\<close>. The methods
  \<^verbatim>\<open>ResourceId()\<close> and \<^verbatim>\<open>FullKey()\<close> of a resource variable are not part of
  \<^verbatim>\<open>context.go\<close>; their results are data of the variable.
\<close>

record ResourceVariable =
  rv_Type :: string
  rv_Name :: string
  rv_Field :: string
  rv_ResourceId :: string
  rv_FullKey :: string

datatype InterpolatedVariable =
    IsResourceVariable ResourceVariable
  | IsUserVariable string

text \<open>
  A value of the resolved view \<^verbatim>\<open>Config()\<close> of a raw configuration is an
  \<^verbatim>\<open>interface{}\<close>: a string, or something else.
\<close>

datatype cfg_value = CfgString string | CfgOther

record RawConfig =
  raw_Variables :: "(string \<times> InterpolatedVariable) list"
  raw_Config :: "(string \<times> cfg_value) list"

text \<open>
  A \<^verbatim>\<open>ResourceConfig\<close> is made by \<^verbatim>\<open>new(ResourceConfig)\<close> or by
  \<^verbatim>\<open>NewResourceConfig(raw)\<close>, and only handed to providers.
\<close>

datatype ResourceConfig = ZeroResourceConfig | NewResourceConfig RawConfig

record Output =
  o_Name :: string
  o_RawConfig :: RawConfig

record Config =
  cfg_Outputs :: "Output list"

subsection \<open>State, diff and plan\<close>

record ResourceState =
  rs_Type :: string
  rs_ID :: string
  rs_Attributes :: "(string \<times> string) list"

text \<open>\<^verbatim>\<open>new(ResourceState)\<close>: the zero value.\<close>

definition new_ResourceState :: ResourceState where
  "new_ResourceState = \<lparr>rs_Type = [], rs_ID = [], rs_Attributes = []\<rparr>"

record ResourceAttrDiff =
  ad_Old :: string
  ad_New :: string
  ad_NewComputed :: bool
  ad_RequiresNew :: bool

record ResourceDiff =
  rd_Attributes :: "(string \<times> ResourceAttrDiff) list"
  rd_Destroy :: bool

text \<open>
  Modelled from the spec: \<^verbatim>\<open>ResourceDiff.Empty\<close> is not part of \<^verbatim>\<open>context.go\<close>.
  The spec has it true iff destroy is false and the attribute mapping is empty. The
  callbacks call it on a \<^verbatim>\<open>nil\<close> diff (Plan with \<^verbatim>\<open>Destroy\<close> and no ID, Apply on a
  resource without diff) and go on, so a \<^verbatim>\<open>nil\<close> diff is empty.
\<close>

fun Empty :: "ResourceDiff option \<Rightarrow> bool" where
  "Empty None = True"
| "Empty (Some d) = (\<not> rd_Destroy d \<and> rd_Attributes d = [])"

record State =
  s_Resources :: "string \<rightharpoonup> ResourceState"
  s_Outputs :: "(string \<rightharpoonup> string) option"

text \<open>\<^verbatim>\<open>new(State)\<close> followed by \<^verbatim>\<open>init()\<close>: an empty resource map, no outputs.\<close>

definition new_State :: State where
  "new_State = \<lparr>s_Resources = Map.empty, s_Outputs = None\<rparr>"

record Diff =
  d_Resources :: "string \<rightharpoonup> ResourceDiff option"

record PlanOpts =
  po_Destroy :: bool

record Plan =
  p_Config :: Config
  p_Vars :: "(string \<times> string) list"
  p_State :: "State option"
  p_Diff :: Diff

subsection \<open>Providers, hooks, resources and graph nodes\<close>

record 'w ResourceProvider =
  prov_Configure :: "ResourceConfig option \<Rightarrow> 'w \<Rightarrow> error option \<times> 'w"
  prov_Diff :: "ResourceState \<Rightarrow> ResourceConfig option \<Rightarrow> 'w
             \<Rightarrow> (error + ResourceDiff option) \<times> 'w"
  prov_Apply :: "ResourceState \<Rightarrow> ResourceDiff option \<Rightarrow> 'w
              \<Rightarrow> (error + ResourceState option) \<times> 'w"
  prov_Refresh :: "ResourceState \<Rightarrow> 'w \<Rightarrow> (error + ResourceState option) \<times> 'w"

record 'w Hook =
  h_PreApply :: "string \<Rightarrow> ResourceState \<Rightarrow> ResourceDiff option \<Rightarrow> 'w \<Rightarrow> HookAction \<times> 'w"
  h_PostApply :: "string \<Rightarrow> ResourceState \<Rightarrow> 'w \<Rightarrow> HookAction \<times> 'w"
  h_PreDiff :: "string \<Rightarrow> ResourceState \<Rightarrow> 'w \<Rightarrow> HookAction \<times> 'w"
  h_PostDiff :: "string \<Rightarrow> ResourceDiff option \<Rightarrow> 'w \<Rightarrow> HookAction \<times> 'w"
  h_PreRefresh :: "string \<Rightarrow> ResourceState \<Rightarrow> 'w \<Rightarrow> HookAction \<times> 'w"
  h_PostRefresh :: "string \<Rightarrow> ResourceState \<Rightarrow> 'w \<Rightarrow> HookAction \<times> 'w"

record 'w Resource =
  r_Id :: string
  r_State :: ResourceState
  r_Config :: "ResourceConfig option"
  r_Diff :: "ResourceDiff option"
  r_Provider :: "'w ResourceProvider"

text \<open>
  The metadata of a graph node. \<open>gr_Config\<close> and \<open>gp_Config\<close> are the
  \<^verbatim>\<open>RawConfig\<close> of \<^verbatim>\<open>m.Config\<close>, \<open>None\<close> when \<^verbatim>\<open>m.Config\<close> is \<^verbatim>\<open>nil\<close>.
  Every node owns its resource and its raw configuration.
\<close>

record 'w GraphNodeResource =
  gr_Type :: string
  gr_Orphan :: bool
  gr_Resource :: "'w Resource"
  gr_Config :: "RawConfig option"

record GraphNodeResourceMeta =
  gm_ID :: string
  gm_Count :: int

record 'w GraphNodeResourceProvider =
  gp_Config :: "RawConfig option"
  gp_Providers :: "(string \<times> 'w ResourceProvider) list"

datatype 'w Meta =
    IsResource "'w GraphNodeResource"
  | IsResourceMeta GraphNodeResourceMeta
  | IsResourceProvider "'w GraphNodeResourceProvider"
  | IsOther

record 'w Noun =
  n_Name :: string
  n_Meta :: "'w Meta"

record 'w GraphOpts =
  go_Config :: Config
  go_Diff :: "Diff option"
  go_Providers :: "(string \<times> 'w ResourceProvider) list"
  go_State :: "State option"

record 'w Context =
  c_config :: Config
  c_diff :: "Diff option"
  c_hooks :: "'w Hook list"
  c_state :: "State option"
  c_providers :: "(string \<times> 'w ResourceProvider) list"
  c_variables :: "(string \<times> string) list"

subsection \<open>What \<^verbatim>\<open>context.go\<close> takes from the rest of the repository\<close>

text \<open>
  The functions and constants that \<^verbatim>\<open>context.go\<close> uses and that live elsewhere are
  parameters of the model:
  \<^item> \<open>env_Graph\<close>: the graph builder \<^verbatim>\<open>Graph(opts)\<close>; its result is the list of the
    nouns of the graph in the order in which \<^verbatim>\<open>Walk\<close> visits them;
  \<^item> \<open>env_Interpolate\<close>: \<^verbatim>\<open>RawConfig.Interpolate(vars)\<close>, which returns an error or
    \<^verbatim>\<open>nil\<close> and leaves the raw configuration changed;
  \<^item> \<open>env_Vars\<close>: \<^verbatim>\<open>Resource.Vars()\<close>;
  \<^item> \<open>env_MergeDiff\<close>: \<^verbatim>\<open>ResourceState.MergeDiff(diff)\<close>;
  \<^item> the constants \<^verbatim>\<open>config.UnknownVariableValue\<close> and \<^verbatim>\<open>GraphRootNode\<close>.
\<close>

record 'w env =
  env_Graph :: "'w GraphOpts \<Rightarrow> error + 'w Noun list"
  env_Interpolate :: "RawConfig \<Rightarrow> (string \<rightharpoonup> string) \<Rightarrow> error option \<times> RawConfig"
  env_Vars :: "'w Resource \<Rightarrow> (string \<times> string) list"
  env_MergeDiff :: "ResourceState \<Rightarrow> ResourceDiff option \<Rightarrow> ResourceState"
  env_UnknownVariableValue :: string
  env_GraphRootNode :: string

section \<open>Aggregate variables: \<^verbatim>\<open>computeAggregateVars\<close>\<close>

text \<open>The variables of the node's raw configuration (the first \<^verbatim>\<open>switch\<close>).\<close>

definition aggregate_ivars :: "'w Meta \<Rightarrow> (string \<times> InterpolatedVariable) list" where
  "aggregate_ivars m =
     (case m of
        IsResource rn \<Rightarrow> (case gr_Config rn of None \<Rightarrow> [] | Some raw \<Rightarrow> raw_Variables raw)
      | IsResourceProvider pn \<Rightarrow>
          (case gp_Config pn of None \<Rightarrow> [] | Some raw \<Rightarrow> raw_Variables raw)
      | _ \<Rightarrow> [])"

text \<open>The key \<^verbatim>\<open>fmt.Sprintf("%s.%s.%d.%s", rv.Type, rv.Name, i, field)\<close>.\<close>

definition index_key :: "ResourceVariable \<Rightarrow> string \<Rightarrow> nat \<Rightarrow> string" where
  "index_key rv field i =
     rv_Type rv @ ''.'' @ rv_Name rv @ ''.'' @ string_of_nat i @ ''.'' @ field"

text \<open>The inner loop \<^verbatim>\<open>for i := 0; i < count; i++\<close>: the values present in the store.\<close>

fun aggregate_values ::
  "(string \<times> string) list \<Rightarrow> ResourceVariable \<Rightarrow> string \<Rightarrow> nat list \<Rightarrow> string list" where
  "aggregate_values vs rv field [] = []"
| "aggregate_values vs rv field (i # is) =
     (case map_of vs (index_key rv field i) of
        Some v \<Rightarrow> v # aggregate_values vs rv field is
      | None \<Rightarrow> aggregate_values vs rv field is)"

text \<open>One round of the loop over the variables: the panic, if any, and the store.\<close>

definition aggregate_var ::
  "(string \<times> int) list \<Rightarrow> (string \<times> string) list \<Rightarrow> InterpolatedVariable
   \<Rightarrow> panic_value option \<times> (string \<times> string) list" where
  "aggregate_var cs vs v =
     (case v of
        IsUserVariable _ \<Rightarrow> (None, vs)
      | IsResourceVariable rv \<Rightarrow>
          (case strings_Index (rv_Field rv) CHR ''.'' of
             None \<Rightarrow> (None, vs)
           | Some idx \<Rightarrow>
               if take idx (rv_Field rv) \<noteq> ''*'' then (None, vs)
               else
                 let field = drop (idx + 1) (rv_Field rv);
                     key = rv_Type rv @ ''.'' @ rv_Name rv
                 in (case map_of cs key of
                       None \<Rightarrow> (Some (PanicNonExistentVar key), vs)
                     | Some count \<Rightarrow>
                         (None,
                          AList.update (rv_FullKey rv)
                            (strings_Join (aggregate_values vs rv field [0..<nat count]) '','')
                            vs))))"

fun aggregate_loop ::
  "(string \<times> int) list \<Rightarrow> (string \<times> string) list \<Rightarrow> (string \<times> InterpolatedVariable) list
   \<Rightarrow> panic_value option \<times> (string \<times> string) list" where
  "aggregate_loop cs vs [] = (None, vs)"
| "aggregate_loop cs vs ((n, v) # rest) =
     (case aggregate_var cs vs v of
        (Some p, vs') \<Rightarrow> (Some p, vs')
      | (None, vs') \<Rightarrow> aggregate_loop cs vs' rest)"

definition computeAggregateVars ::
  "'w Meta \<Rightarrow> (string \<times> int) list \<Rightarrow> (string \<times> string) list
   \<Rightarrow> panic_value option \<times> (string \<times> string) list" where
  "computeAggregateVars m cs vs = aggregate_loop cs vs (aggregate_ivars m)"

section \<open>The walker: \<^verbatim>\<open>genericWalkFn\<close>\<close>

subsection \<open>Hooks\<close>

text \<open>
  Modelled from the spec: \<^verbatim>\<open>handleHook\<close> is not part of \<^verbatim>\<open>context.go\<close>. By the spec
  a hook returns a verdict, Continue or Halt, and on Halt the dispatcher raises the halt
  signal. \<open>run_hooks\<close> is a loop \<^verbatim>\<open>for _, h := range c.hooks { handleHook(h.Event(...)) }\<close>:
  it returns \<open>True\<close> when a hook halted (the loop was left by the panic).
\<close>

fun run_hooks :: "('w \<Rightarrow> HookAction \<times> 'w) list \<Rightarrow> 'w \<Rightarrow> bool \<times> 'w" where
  "run_hooks [] w = (False, w)"
| "run_hooks (h # hs) w =
     (case h w of
        (HookActionHalt, w') \<Rightarrow> (True, w')
      | (HookActionContinue, w') \<Rightarrow> run_hooks hs w')"

subsection \<open>The state of a walk\<close>

text \<open>
  The variables the closure of \<^verbatim>\<open>genericWalkFn\<close> captures (\<^verbatim>\<open>vars\<close>, \<^verbatim>\<open>counts\<close>,
  \<^verbatim>\<open>stop\<close>), the result the operation's callback writes to (a state or a plan), and the
  world of the plugins.
\<close>

record ('w, 'a) walk_state =
  ws_vars :: "(string \<times> string) list"
  ws_counts :: "(string \<times> int) list"
  ws_stop :: bool
  ws_result :: 'a
  ws_world :: 'w

text \<open>What a \<^verbatim>\<open>genericWalkFunc\<close> does: it returns variables and an error, or panics.\<close>

datatype cb_ret =
    CbReturn "(string \<times> string) list" "error option"
  | CbPanic panic_value

text \<open>What a \<^verbatim>\<open>depgraph.WalkFunc\<close> does: it returns \<^verbatim>\<open>nil\<close> or an error, or panics.\<close>

datatype node_ret = RetNil | RetError error | RetPanic panic_value

type_synonym ('w, 'a) genericWalkFunc =
  "'w Resource \<Rightarrow> 'a \<Rightarrow> 'w \<Rightarrow> cb_ret \<times> 'w Resource \<times> 'a \<times> 'w"

text \<open>The start of \<^verbatim>\<open>genericWalkFn\<close>: every input variable under \<^verbatim>\<open>var.NAME\<close>.\<close>

definition genericWalkFn_init ::
  "(string \<times> string) list \<Rightarrow> 'a \<Rightarrow> 'w \<Rightarrow> ('w, 'a) walk_state" where
  "genericWalkFn_init invars result w =
     \<lparr>ws_vars = fold (\<lambda>(k, v). AList.update (''var.'' @ k) v) invars [],
      ws_counts = [],
      ws_stop = False,
      ws_result = result,
      ws_world = w\<rparr>"

subsection \<open>Provider nodes\<close>

fun configure_providers ::
  "(string \<times> 'w ResourceProvider) list \<Rightarrow> ResourceConfig option \<Rightarrow> 'w \<Rightarrow> error option \<times> 'w"
  where
  "configure_providers [] rc w = (None, w)"
| "configure_providers ((k, p) # ps) rc w =
     (case prov_Configure p rc w of
        (Some err, w') \<Rightarrow> (Some err, w')
      | (None, w') \<Rightarrow> configure_providers ps rc w')"

definition ret_of_error :: "error option \<Rightarrow> node_ret" where
  "ret_of_error e = (case e of None \<Rightarrow> RetNil | Some err \<Rightarrow> RetError err)"

definition walk_provider ::
  "'w env \<Rightarrow> 'w GraphNodeResourceProvider \<Rightarrow> ('w, 'a) walk_state
   \<Rightarrow> node_ret \<times> 'w GraphNodeResourceProvider \<times> ('w, 'a) walk_state" where
  "walk_provider env m ws =
     (case gp_Config m of
        None \<Rightarrow>
          (case configure_providers (gp_Providers m) None (ws_world ws) of
             (e, w') \<Rightarrow> (ret_of_error e, m, ws\<lparr>ws_world := w'\<rparr>))
      | Some raw \<Rightarrow>
          (case env_Interpolate env raw (map_of (ws_vars ws)) of
             (Some err, raw') \<Rightarrow> (RetPanic (PanicErr err), m\<lparr>gp_Config := Some raw'\<rparr>, ws)
           | (None, raw') \<Rightarrow>
               (case configure_providers (gp_Providers m) (Some (NewResourceConfig raw'))
                       (ws_world ws) of
                  (e, w') \<Rightarrow>
                    (ret_of_error e, m\<lparr>gp_Config := Some raw'\<rparr>, ws\<lparr>ws_world := w'\<rparr>))))"

subsection \<open>Resource nodes\<close>

text \<open>The interpolation of the node's raw configuration, under the read lock.\<close>

definition interpolate_resource ::
  "'w env \<Rightarrow> (string \<times> string) list \<Rightarrow> 'w GraphNodeResource
   \<Rightarrow> error option \<times> 'w GraphNodeResource" where
  "interpolate_resource env vars rn =
     (if vars \<noteq> [] then
        (case gr_Config rn of
           None \<Rightarrow> (None, rn)
         | Some raw \<Rightarrow>
             (case env_Interpolate env raw (map_of vars) of
                (Some err, raw') \<Rightarrow> (Some err, rn\<lparr>gr_Config := Some raw'\<rparr>)
              | (None, raw') \<Rightarrow>
                  (None, rn\<lparr>gr_Config := Some raw',
                             gr_Resource := (gr_Resource rn)\<lparr>r_Config := None\<rparr>\<rparr>)))
      else (None, rn))"

text \<open>"Make sure that at least some resource configuration is set".\<close>

definition ensure_config :: "'w GraphNodeResource \<Rightarrow> 'w GraphNodeResource" where
  "ensure_config rn =
     (if \<not> gr_Orphan rn then
        (if r_Config (gr_Resource rn) = None then
           (case gr_Config rn of
              None \<Rightarrow> rn\<lparr>gr_Resource := (gr_Resource rn)\<lparr>r_Config := Some ZeroResourceConfig\<rparr>\<rparr>
            | Some raw \<Rightarrow>
                rn\<lparr>gr_Resource := (gr_Resource rn)\<lparr>r_Config := Some (NewResourceConfig raw)\<rparr>\<rparr>)
         else rn)
      else rn\<lparr>gr_Resource := (gr_Resource rn)\<lparr>r_Config := None\<rparr>\<rparr>)"

text \<open>
  The call of the callback, under the deferred \<^verbatim>\<open>recover\<close>: a panic with
  \<^verbatim>\<open>HookActionHalt\<close> sets the stop flag and the function returns its zero result
  \<^verbatim>\<open>nil\<close>; any other panic goes on. The new variables are merged only when the callback
  returned no error (the loop over an empty \<^verbatim>\<open>newVars\<close> does nothing).
\<close>

definition call_callback ::
  "('w, 'a) genericWalkFunc \<Rightarrow> 'w GraphNodeResource \<Rightarrow> ('w, 'a) walk_state
   \<Rightarrow> node_ret \<times> 'w GraphNodeResource \<times> ('w, 'a) walk_state" where
  "call_callback cb rn ws =
     (case cb (gr_Resource rn) (ws_result ws) (ws_world ws) of
        (ret, r', result', w') \<Rightarrow>
          let rn' = rn\<lparr>gr_Resource := r'\<rparr>;
              ws' = ws\<lparr>ws_result := result', ws_world := w'\<rparr>
          in (case ret of
                CbPanic v \<Rightarrow>
                  if v = PanicHookAction HookActionHalt
                  then (RetNil, rn', ws'\<lparr>ws_stop := True\<rparr>)
                  else (RetPanic v, rn', ws')
              | CbReturn newVars (Some err) \<Rightarrow> (RetError err, rn', ws')
              | CbReturn newVars None \<Rightarrow>
                  (RetNil, rn',
                   ws'\<lparr>ws_vars := fold (\<lambda>(k, v). AList.update k v) newVars (ws_vars ws')\<rparr>)))"

definition walk_resource ::
  "'w env \<Rightarrow> ('w, 'a) genericWalkFunc \<Rightarrow> 'w GraphNodeResource \<Rightarrow> ('w, 'a) walk_state
   \<Rightarrow> node_ret \<times> 'w GraphNodeResource \<times> ('w, 'a) walk_state" where
  "walk_resource env cb rn ws =
     (case interpolate_resource env (ws_vars ws) rn of
        (Some err, rn') \<Rightarrow> (RetPanic (PanicInterpolate err), rn', ws)
      | (None, rn') \<Rightarrow> call_callback cb (ensure_config rn') ws)"

subsection \<open>The function returned by \<^verbatim>\<open>genericWalkFn\<close>\<close>

definition genericWalkFn ::
  "'w env \<Rightarrow> ('w, 'a) genericWalkFunc \<Rightarrow> 'w Noun \<Rightarrow> ('w, 'a) walk_state
   \<Rightarrow> node_ret \<times> 'w Noun \<times> ('w, 'a) walk_state" where
  "genericWalkFn env cb n ws =
     (if n_Name n = env_GraphRootNode env then (RetNil, n, ws)
      else if ws_stop ws then (RetNil, n, ws)
      else
        (case computeAggregateVars (n_Meta n) (ws_counts ws) (ws_vars ws) of
           (Some p, vs) \<Rightarrow> (RetPanic p, n, ws\<lparr>ws_vars := vs\<rparr>)
         | (None, vs) \<Rightarrow>
             (case n_Meta n of
                IsResourceMeta m \<Rightarrow>
                  (RetNil, n,
                   ws\<lparr>ws_vars := vs,
                      ws_counts := AList.update (gm_ID m) (gm_Count m) (ws_counts ws)\<rparr>)
              | IsResourceProvider m \<Rightarrow>
                  (case walk_provider env m (ws\<lparr>ws_vars := vs\<rparr>) of
                     (ret, m', ws') \<Rightarrow> (ret, n\<lparr>n_Meta := IsResourceProvider m'\<rparr>, ws'))
              | IsOther \<Rightarrow> (RetPanic PanicUnknownGraphNode, n, ws\<lparr>ws_vars := vs\<rparr>)
              | IsResource rn \<Rightarrow>
                  (case walk_resource env cb rn (ws\<lparr>ws_vars := vs\<rparr>) of
                     (ret, rn', ws') \<Rightarrow> (ret, n\<lparr>n_Meta := IsResource rn'\<rparr>, ws')))))"

subsection \<open>The walk\<close>

text \<open>
  Modelled from the spec: \<^verbatim>\<open>depgraph.Graph.Walk\<close> is not part of \<^verbatim>\<open>context.go\<close>. By
  the spec it visits every noun, leaves first, and an error of the callback aborts the
  walk. The graph is the list of its nouns in the order of the visits, one visit at a
  time; the walk ends at the first visit that returns an error or panics, with that
  result. The changed nouns are dropped with the graph.
\<close>

fun Walk ::
  "('n \<Rightarrow> 's \<Rightarrow> node_ret \<times> 'n \<times> 's) \<Rightarrow> 'n list \<Rightarrow> 's \<Rightarrow> node_ret \<times> 's" where
  "Walk fn [] ws = (RetNil, ws)"
| "Walk fn (n # ns) ws =
     (case fn n ws of
        (RetNil, n', ws') \<Rightarrow> Walk fn ns ws'
      | (RetError err, n', ws') \<Rightarrow> (RetError err, ws')
      | (RetPanic p, n', ws') \<Rightarrow> (RetPanic p, ws'))"

section \<open>The callbacks of the operations\<close>

subsection \<open>Apply: \<^verbatim>\<open>applyWalkFn\<close>\<close>

text \<open>
  The loop over the attributes of the state the provider returned: \<open>entries\<close> is what
  the \<^verbatim>\<open>range\<close> still has to visit, \<open>attrs\<close> the map, \<open>errs\<close> the errors so far.
\<close>

fun scan_unknown ::
  "string \<Rightarrow> (string \<times> string) list \<Rightarrow> (string \<times> string) list \<Rightarrow> error list
   \<Rightarrow> (string \<times> string) list \<times> error list" where
  "scan_unknown u [] attrs errs = (attrs, errs)"
| "scan_unknown u ((ak, av) # entries) attrs errs =
     (if av = u
      then scan_unknown u entries (AList.delete ak attrs)
             (errs @ [Errorf (''Attribute with unknown value: '' @ ak)])
      else scan_unknown u entries attrs errs)"

text \<open>"Update the resulting diff": the write to \<^verbatim>\<open>result.Resources\<close> under the mutex.\<close>

definition install :: "string \<Rightarrow> ResourceState \<Rightarrow> State \<Rightarrow> State" where
  "install rid rs result =
     (if rs_ID rs = [] then result\<lparr>s_Resources := (s_Resources result)(rid := None)\<rparr>
      else result\<lparr>s_Resources := (s_Resources result)(rid \<mapsto> rs)\<rparr>)"

text \<open>
  "Make sure the result is instantiated", "Force the resource state type to be our
  type", and the loop over the attributes: the state and the errors.
\<close>

definition apply_normalise ::
  "'w env \<Rightarrow> 'w Resource \<Rightarrow> ResourceState option \<Rightarrow> ResourceState \<times> error list" where
  "apply_normalise env r rso =
     (let rs0 = (case rso of None \<Rightarrow> new_ResourceState | Some rs \<Rightarrow> rs);
          rs1 = rs0\<lparr>rs_Type := rs_Type (r_State r)\<rparr>;
          (attrs, errs) =
            scan_unknown (env_UnknownVariableValue env) (rs_Attributes rs1) (rs_Attributes rs1) []
      in (rs1\<lparr>rs_Attributes := attrs\<rparr>, errs))"

text \<open>The callback after \<^verbatim>\<open>r.Provider.Apply\<close> has returned a state and no error.\<close>

definition apply_finish ::
  "'w env \<Rightarrow> 'w Hook list \<Rightarrow> 'w Resource \<Rightarrow> State \<Rightarrow> ResourceState option \<Rightarrow> 'w
   \<Rightarrow> cb_ret \<times> 'w Resource \<times> State \<times> 'w" where
  "apply_finish env hooks r result rso w =
     (case apply_normalise env r rso of
        (rs, errs) \<Rightarrow>
          let result' = install (r_Id r) rs result;
              r' = r\<lparr>r_State := rs\<rparr>
          in (case run_hooks (map (\<lambda>h. h_PostApply h (r_Id r') (r_State r')) hooks) w of
                (True, w') \<Rightarrow> (CbPanic (PanicHookAction HookActionHalt), r', result', w')
              | (False, w') \<Rightarrow>
                  (CbReturn (env_Vars env r')
                     (if errs = [] then None else Some (MultiError errs)),
                   r', result', w')))"

definition apply_cb ::
  "'w env \<Rightarrow> 'w Hook list \<Rightarrow> 'w Resource \<Rightarrow> State \<Rightarrow> 'w
   \<Rightarrow> cb_ret \<times> 'w Resource \<times> State \<times> 'w" where
  "apply_cb env hooks r result w =
     (case r_Diff r of
        None \<Rightarrow> (CbReturn (env_Vars env r) None, r, result, w)
      | Some d \<Rightarrow>
          if Empty (Some d) then (CbReturn (env_Vars env r) None, r, result, w)
          else
            (case (if \<not> rd_Destroy d then prov_Diff (r_Provider r) (r_State r) (r_Config r) w
                   else (Inr (Some d), w)) of
               (Inl err, w1) \<Rightarrow> (CbReturn [] (Some err), r, result, w1)
             | (Inr diff, w1) \<Rightarrow>
                 (case run_hooks (map (\<lambda>h. h_PreApply h (r_Id r) (r_State r) diff) hooks) w1 of
                    (True, w2) \<Rightarrow> (CbPanic (PanicHookAction HookActionHalt), r, result, w2)
                  | (False, w2) \<Rightarrow>
                      (case prov_Apply (r_Provider r) (r_State r) diff w2 of
                         (Inl err, w3) \<Rightarrow> (CbReturn [] (Some err), r, result, w3)
                       | (Inr rso, w3) \<Rightarrow> apply_finish env hooks r result rso w3))))"

definition applyWalkFn ::
  "'w env \<Rightarrow> 'w Context \<Rightarrow> 'w Noun \<Rightarrow> ('w, State) walk_state
   \<Rightarrow> node_ret \<times> 'w Noun \<times> ('w, State) walk_state" where
  "applyWalkFn env c = genericWalkFn env (apply_cb env (c_hooks c))"

subsection \<open>Plan: \<^verbatim>\<open>planWalkFn\<close>\<close>

definition destroy_diff :: ResourceDiff where
  "destroy_diff = \<lparr>rd_Attributes = [], rd_Destroy = True\<rparr>"

text \<open>The diff of a resource, by the \<^verbatim>\<open>if\<close> chain of the callback.\<close>

definition plan_diff ::
  "PlanOpts \<Rightarrow> 'w Resource \<Rightarrow> 'w \<Rightarrow> (error + ResourceDiff option) \<times> 'w" where
  "plan_diff opts r w =
     (if po_Destroy opts then
        (if rs_ID (r_State r) \<noteq> [] then (Inr (Some destroy_diff), w)
         else (Inr None, w))
      else if r_Config r = None then (Inr (Some destroy_diff), w)
      else prov_Diff (r_Provider r) (r_State r) (r_Config r) w)"

definition record_diff :: "string \<Rightarrow> ResourceDiff option \<Rightarrow> Plan \<Rightarrow> Plan" where
  "record_diff rid diff result =
     (if \<not> Empty diff
      then result\<lparr>p_Diff := (p_Diff result)\<lparr>d_Resources := (d_Resources (p_Diff result))(rid \<mapsto> diff)\<rparr>\<rparr>
      else result)"

text \<open>The callback once the diff is there.\<close>

definition plan_finish ::
  "'w env \<Rightarrow> 'w Hook list \<Rightarrow> 'w Resource \<Rightarrow> Plan \<Rightarrow> ResourceDiff option \<Rightarrow> 'w
   \<Rightarrow> cb_ret \<times> 'w Resource \<times> Plan \<times> 'w" where
  "plan_finish env hooks r result diff w =
     (let result' = record_diff (r_Id r) diff result
      in (case run_hooks (map (\<lambda>h. h_PostDiff h (r_Id r) diff) hooks) w of
            (True, w') \<Rightarrow> (CbPanic (PanicHookAction HookActionHalt), r, result', w')
          | (False, w') \<Rightarrow>
              let r' = (if \<not> Empty diff
                        then r\<lparr>r_State := env_MergeDiff env (r_State r) diff\<rparr>
                        else r)
              in (CbReturn (env_Vars env r') None, r', result', w')))"

definition plan_cb ::
  "'w env \<Rightarrow> 'w Hook list \<Rightarrow> PlanOpts \<Rightarrow> 'w Resource \<Rightarrow> Plan \<Rightarrow> 'w
   \<Rightarrow> cb_ret \<times> 'w Resource \<times> Plan \<times> 'w" where
  "plan_cb env hooks opts r result w =
     (case run_hooks (map (\<lambda>h. h_PreDiff h (r_Id r) (r_State r)) hooks) w of
        (True, w1) \<Rightarrow> (CbPanic (PanicHookAction HookActionHalt), r, result, w1)
      | (False, w1) \<Rightarrow>
          (case plan_diff opts r w1 of
             (Inl err, w2) \<Rightarrow> (CbReturn [] (Some err), r, result, w2)
           | (Inr diff, w2) \<Rightarrow> plan_finish env hooks r result diff w2))"

text \<open>A \<^verbatim>\<open>nil\<close> \<^verbatim>\<open>opts\<close> is replaced by \<^verbatim>\<open>new(PlanOpts)\<close>.\<close>

definition planWalkFn ::
  "'w env \<Rightarrow> 'w Context \<Rightarrow> PlanOpts option \<Rightarrow> 'w Noun \<Rightarrow> ('w, Plan) walk_state
   \<Rightarrow> node_ret \<times> 'w Noun \<times> ('w, Plan) walk_state" where
  "planWalkFn env c opts =
     genericWalkFn env
       (plan_cb env (c_hooks c)
          (case opts of None \<Rightarrow> \<lparr>po_Destroy = False\<rparr> | Some po \<Rightarrow> po))"

subsection \<open>Refresh: \<^verbatim>\<open>refreshWalkFn\<close>\<close>

definition refresh_cb ::
  "'w Hook list \<Rightarrow> 'w Resource \<Rightarrow> State \<Rightarrow> 'w \<Rightarrow> cb_ret \<times> 'w Resource \<times> State \<times> 'w" where
  "refresh_cb hooks r result w =
     (case run_hooks (map (\<lambda>h. h_PreRefresh h (r_Id r) (r_State r)) hooks) w of
        (True, w1) \<Rightarrow> (CbPanic (PanicHookAction HookActionHalt), r, result, w1)
      | (False, w1) \<Rightarrow>
          (case prov_Refresh (r_Provider r) (r_State r) w1 of
             (Inl err, w2) \<Rightarrow> (CbReturn [] (Some err), r, result, w2)
           | (Inr rso, w2) \<Rightarrow>
               let rs0 = (case rso of None \<Rightarrow> new_ResourceState | Some rs \<Rightarrow> rs);
                   rs = rs0\<lparr>rs_Type := rs_Type (r_State r)\<rparr>;
                   result' = result\<lparr>s_Resources := (s_Resources result)(r_Id r \<mapsto> rs)\<rparr>
               in (case run_hooks (map (\<lambda>h. h_PostRefresh h (r_Id r) rs) hooks) w2 of
                     (True, w3) \<Rightarrow> (CbPanic (PanicHookAction HookActionHalt), r, result', w3)
                   | (False, w3) \<Rightarrow> (CbReturn [] None, r, result', w3))))"

definition refreshWalkFn ::
  "'w env \<Rightarrow> 'w Context \<Rightarrow> 'w Noun \<Rightarrow> ('w, State) walk_state
   \<Rightarrow> node_ret \<times> 'w Noun \<times> ('w, State) walk_state" where
  "refreshWalkFn env c = genericWalkFn env (refresh_cb (c_hooks c))"

section \<open>The operations of the context\<close>

text \<open>
  The run gate (\<^verbatim>\<open>acquireRun\<close>, \<^verbatim>\<open>releaseRun\<close>) only serialises the operations and is
  left out: an operation of the model is one run. An operation returns its results or
  panics; in both cases it leaves a context and a world.
\<close>

datatype 'a outcome = Returns 'a | Panics panic_value

subsection \<open>\<^verbatim>\<open>computeVars\<close>\<close>

definition computeVars_var ::
  "State \<Rightarrow> (string \<times> string) list \<Rightarrow> InterpolatedVariable \<Rightarrow> error + string" where
  "computeVars_var s variables v =
     (case v of
        IsResourceVariable rv \<Rightarrow>
          (case s_Resources s (rv_ResourceId rv) of
             None \<Rightarrow>
               Inl (Errorf (''Resource '' @ quoted (rv_ResourceId rv) @
                            '' not found for variable '' @ quoted (rv_FullKey rv)))
           | Some r \<Rightarrow>
               (case map_of (rs_Attributes r) (rv_Field rv) of
                  None \<Rightarrow>
                    Inl (Errorf (''Resource '' @ quoted (rv_ResourceId rv) @
                                 '' does not have attribute '' @ quoted (rv_Field rv) @
                                 '' for variable '' @ quoted (rv_FullKey rv)))
                | Some attr \<Rightarrow> Inr attr))
      | IsUserVariable name \<Rightarrow>
          Inr (case map_of variables name of None \<Rightarrow> [] | Some x \<Rightarrow> x))"

fun computeVars_loop ::
  "State \<Rightarrow> (string \<times> string) list \<Rightarrow> (string \<times> InterpolatedVariable) list
   \<Rightarrow> (string \<times> string) list \<Rightarrow> error + (string \<times> string) list" where
  "computeVars_loop s variables [] vs = Inr vs"
| "computeVars_loop s variables ((n, v) # rest) vs =
     (case computeVars_var s variables v of
        Inl err \<Rightarrow> Inl err
      | Inr x \<Rightarrow> computeVars_loop s variables rest (AList.update n x vs))"

definition computeVars ::
  "'w env \<Rightarrow> 'w Context \<Rightarrow> State \<Rightarrow> RawConfig \<Rightarrow> error option \<times> RawConfig" where
  "computeVars env c s raw =
     (if raw_Variables raw = [] then (None, raw)
      else
        (case computeVars_loop s (c_variables c) (raw_Variables raw) [] of
           Inl err \<Rightarrow> (Some err, raw)
         | Inr vs \<Rightarrow> env_Interpolate env raw (map_of vs)))"

subsection \<open>\<^verbatim>\<open>Apply\<close>\<close>

definition apply_GraphOpts :: "'w Context \<Rightarrow> 'w GraphOpts" where
  "apply_GraphOpts c =
     \<lparr>go_Config = c_config c, go_Diff = c_diff c,
      go_Providers = c_providers c, go_State = c_state c\<rparr>"

text \<open>
  "Create our result. Make sure we preserve the prior states": the loop writes every
  entry of \<^verbatim>\<open>c.state.Resources\<close> into the empty map of the new state.
\<close>

definition apply_result :: "'w Context \<Rightarrow> State" where
  "apply_result c =
     new_State\<lparr>s_Resources :=
       (case c_state c of None \<Rightarrow> Map.empty | Some st \<Rightarrow> Map.empty ++ s_Resources st)\<rparr>"

text \<open>
  The loop over the outputs, on the map \<^verbatim>\<open>s.Outputs\<close>. It ends at the first error of
  \<^verbatim>\<open>computeVars\<close>; the type assertion \<^verbatim>\<open>.(string)\<close> panics when the resolved
  configuration has no string under \<^verbatim>\<open>value\<close>. The raw configurations it leaves
  interpolated are not kept in the model.
\<close>

fun compute_outputs ::
  "'w env \<Rightarrow> 'w Context \<Rightarrow> State \<Rightarrow> Output list \<Rightarrow> (string \<rightharpoonup> string)
   \<Rightarrow> node_ret \<times> (string \<rightharpoonup> string)" where
  "compute_outputs env c s [] outs = (RetNil, outs)"
| "compute_outputs env c s (out # rest) outs =
     (case computeVars env c s (o_RawConfig out) of
        (Some err, raw') \<Rightarrow> (RetError err, outs)
      | (None, raw') \<Rightarrow>
          (case map_of (raw_Config raw') ''value'' of
             Some (CfgString v) \<Rightarrow> compute_outputs env c s rest (outs(o_Name out \<mapsto> v))
           | _ \<Rightarrow> (RetPanic PanicTypeAssertion, outs)))"

text \<open>
  \<^verbatim>\<open>c.state\<close> and the returned state are one object \<^verbatim>\<open>s\<close>, so the outputs written
  after \<^verbatim>\<open>c.state = s\<close> are in the context's state too. A panic of the walk leaves
  \<^verbatim>\<open>Apply\<close> before \<^verbatim>\<open>c.state = s\<close>.
\<close>

definition Apply ::
  "'w env \<Rightarrow> 'w Context \<Rightarrow> 'w \<Rightarrow> (State option \<times> error option) outcome \<times> 'w Context \<times> 'w"
  where
  "Apply env c w =
     (case env_Graph env (apply_GraphOpts c) of
        Inl err \<Rightarrow> (Returns (None, Some err), c, w)
      | Inr g \<Rightarrow>
          (case Walk (applyWalkFn env c) g
                  (genericWalkFn_init (c_variables c) (apply_result c) w) of
             (RetPanic p, ws) \<Rightarrow> (Panics p, c, ws_world ws)
           | (RetError err, ws) \<Rightarrow>
               (Returns (Some (ws_result ws), Some err),
                c\<lparr>c_state := Some (ws_result ws)\<rparr>, ws_world ws)
           | (RetNil, ws) \<Rightarrow>
               let s = ws_result ws in
               if cfg_Outputs (c_config c) = []
               then (Returns (Some s, None), c\<lparr>c_state := Some s\<rparr>, ws_world ws)
               else
                 (case compute_outputs env c s (cfg_Outputs (c_config c)) Map.empty of
                    (ret, outs) \<Rightarrow>
                      let s' = s\<lparr>s_Outputs := Some outs\<rparr> in
                      (case ret of
                         RetPanic p \<Rightarrow> (Panics p, c\<lparr>c_state := Some s'\<rparr>, ws_world ws)
                       | RetError err \<Rightarrow>
                           (Returns (Some s', Some err), c\<lparr>c_state := Some s'\<rparr>, ws_world ws)
                       | RetNil \<Rightarrow>
                           (Returns (Some s', None), c\<lparr>c_state := Some s'\<rparr>, ws_world ws)))))"

subsection \<open>\<^verbatim>\<open>Plan\<close>\<close>

text \<open>The graph of \<^verbatim>\<open>Plan\<close> and \<^verbatim>\<open>Refresh\<close> is built without a diff.\<close>

definition plan_GraphOpts :: "'w Context \<Rightarrow> 'w GraphOpts" where
  "plan_GraphOpts c =
     \<lparr>go_Config = c_config c, go_Diff = None,
      go_Providers = c_providers c, go_State = c_state c\<rparr>"

text \<open>The plan \<^verbatim>\<open>p\<close> after \<^verbatim>\<open>result.init()\<close>: it has a diff, with no resources.\<close>

definition plan_result :: "'w Context \<Rightarrow> Plan" where
  "plan_result c =
     \<lparr>p_Config = c_config c, p_Vars = c_variables c, p_State = c_state c,
      p_Diff = \<lparr>d_Resources = Map.empty\<rparr>\<rparr>"

definition Plan ::
  "'w env \<Rightarrow> 'w Context \<Rightarrow> PlanOpts option \<Rightarrow> 'w
   \<Rightarrow> (Plan option \<times> error option) outcome \<times> 'w Context \<times> 'w" where
  "Plan env c opts w =
     (case env_Graph env (plan_GraphOpts c) of
        Inl err \<Rightarrow> (Returns (None, Some err), c, w)
      | Inr g \<Rightarrow>
          (case Walk (planWalkFn env c opts) g
                  (genericWalkFn_init (c_variables c) (plan_result c) w) of
             (RetPanic v, ws) \<Rightarrow> (Panics v, c, ws_world ws)
           | (RetError err, ws) \<Rightarrow>
               (Returns (Some (ws_result ws), Some err),
                c\<lparr>c_diff := Some (p_Diff (ws_result ws))\<rparr>, ws_world ws)
           | (RetNil, ws) \<Rightarrow>
               (Returns (Some (ws_result ws), None),
                c\<lparr>c_diff := Some (p_Diff (ws_result ws))\<rparr>, ws_world ws)))"

subsection \<open>\<^verbatim>\<open>Refresh\<close>\<close>

definition Refresh ::
  "'w env \<Rightarrow> 'w Context \<Rightarrow> 'w \<Rightarrow> (State option \<times> error option) outcome \<times> 'w Context \<times> 'w"
  where
  "Refresh env c w =
     (case env_Graph env (plan_GraphOpts c) of
        Inl err \<Rightarrow> (Returns (c_state c, Some err), c, w)
      | Inr g \<Rightarrow>
          (case Walk (refreshWalkFn env c) g
                  (genericWalkFn_init (c_variables c) new_State w) of
             (RetPanic v, ws) \<Rightarrow> (Panics v, c, ws_world ws)
           | (RetError err, ws) \<Rightarrow>
               (Returns (Some (ws_result ws), Some err),
                c\<lparr>c_state := Some (ws_result ws)\<rparr>, ws_world ws)
           | (RetNil, ws) \<Rightarrow>
               (Returns (Some (ws_result ws), None),
                c\<lparr>c_state := Some (ws_result ws)\<rparr>, ws_world ws)))"

section \<open>The claims in the words of the specification\<close>

text \<open>
  The diff of a resource during Plan as the specification words it: "if the Destroy
  option is set and the resource's state has a non-empty ID, a destroy-only diff;
  otherwise, if the resource has no Config, a destroy-only diff; otherwise the diff
  returned by the provider". It is compared with \<open>plan_diff\<close> below.
\<close>

definition claimed_plan_diff ::
  "PlanOpts \<Rightarrow> 'w Resource \<Rightarrow> 'w \<Rightarrow> (error + ResourceDiff option) \<times> 'w" where
  "claimed_plan_diff opts r w =
     (if po_Destroy opts \<and> rs_ID (r_State r) \<noteq> [] then (Inr (Some destroy_diff), w)
      else if r_Config r = None then (Inr (Some destroy_diff), w)
      else prov_Diff (r_Provider r) (r_State r) (r_Config r) w)"






section \<open>Example inputs\<close>

text \<open>
  Concrete plugins, resources and graphs, on which the theorems below are instantiated.
  The world is \<open>unit\<close>: these plugins have no state.
\<close>

definition ex_Vars :: "unit Resource \<Rightarrow> (string \<times> string) list" where
  "ex_Vars r = map (\<lambda>(ak, av). (r_Id r @ ''.'' @ ak, av)) (rs_Attributes (r_State r))"

definition ex_MergeDiff :: "ResourceState \<Rightarrow> ResourceDiff option \<Rightarrow> ResourceState" where
  "ex_MergeDiff s diff =
     (case diff of
        None \<Rightarrow> s
      | Some d \<Rightarrow>
          s\<lparr>rs_Attributes :=
               fold (\<lambda>(k, ad). AList.update k (ad_New ad)) (rd_Attributes d) (rs_Attributes s)\<rparr>)"

text \<open>An interpolation that replaces a value \<^verbatim>\<open>${key}\<close> by the binding of the key.\<close>

definition ex_subst :: "(string \<rightharpoonup> string) \<Rightarrow> cfg_value \<Rightarrow> cfg_value" where
  "ex_subst vars v =
     (case v of
        CfgString (a # b # rest) \<Rightarrow>
          (if a = CHR ''$'' \<and> b = CHR ''{'' then
             (case vars (butlast rest) of Some x \<Rightarrow> CfgString x | None \<Rightarrow> v)
           else v)
      | _ \<Rightarrow> v)"

definition ex_Interpolate :: "RawConfig \<Rightarrow> (string \<rightharpoonup> string) \<Rightarrow> error option \<times> RawConfig" where
  "ex_Interpolate raw vars =
     (None, raw\<lparr>raw_Config := map (\<lambda>(k, v). (k, ex_subst vars v)) (raw_Config raw)\<rparr>)"

definition ex_Interpolate_fails ::
  "RawConfig \<Rightarrow> (string \<rightharpoonup> string) \<Rightarrow> error option \<times> RawConfig" where
  "ex_Interpolate_fails raw vars = (Some (Errorf ''interpolation failed''), raw)"

definition ex_env ::
  "unit Noun list \<Rightarrow> (RawConfig \<Rightarrow> (string \<rightharpoonup> string) \<Rightarrow> error option \<times> RawConfig)
   \<Rightarrow> unit env" where
  "ex_env g interp =
     \<lparr>env_Graph = (\<lambda>opts. Inr g),
      env_Interpolate = interp,
      env_Vars = ex_Vars,
      env_MergeDiff = ex_MergeDiff,
      env_UnknownVariableValue = ''<unknown>'',
      env_GraphRootNode = ''root''\<rparr>"

definition ex_provider ::
  "(error + ResourceDiff option) \<Rightarrow> (error + ResourceState option) \<Rightarrow> unit ResourceProvider"
  where
  "ex_provider d a =
     \<lparr>prov_Configure = (\<lambda>rc w. (None, w)),
      prov_Diff = (\<lambda>s rc w. (d, w)),
      prov_Apply = (\<lambda>s diff w. (a, w)),
      prov_Refresh = (\<lambda>s w. (Inr (Some s), w))\<rparr>"

definition ex_hook :: "HookAction \<Rightarrow> unit Hook" where
  "ex_hook a =
     \<lparr>h_PreApply = (\<lambda>rid s d w. (a, w)),
      h_PostApply = (\<lambda>rid s w. (a, w)),
      h_PreDiff = (\<lambda>rid s w. (a, w)),
      h_PostDiff = (\<lambda>rid d w. (a, w)),
      h_PreRefresh = (\<lambda>rid s w. (a, w)),
      h_PostRefresh = (\<lambda>rid s w. (a, w))\<rparr>"

definition ex_diff :: ResourceDiff where
  "ex_diff =
     \<lparr>rd_Attributes =
        [(''ami'', \<lparr>ad_Old = [], ad_New = ''ami-123'', ad_NewComputed = False,
                    ad_RequiresNew = False\<rparr>)],
      rd_Destroy = False\<rparr>"

definition ex_state :: "string \<Rightarrow> (string \<times> string) list \<Rightarrow> ResourceState" where
  "ex_state ident attrs = \<lparr>rs_Type = ''aws_instance'', rs_ID = ident, rs_Attributes = attrs\<rparr>"

definition ex_resource ::
  "string \<Rightarrow> ResourceState \<Rightarrow> ResourceDiff option \<Rightarrow> unit ResourceProvider \<Rightarrow> unit Resource"
  where
  "ex_resource rid s d p =
     \<lparr>r_Id = rid, r_State = s, r_Config = Some ZeroResourceConfig, r_Diff = d, r_Provider = p\<rparr>"

text \<open>A resource that does not exist yet, with a planned diff; the provider's answers.\<close>

definition ex_create ::
  "string \<Rightarrow> (error + ResourceState option) \<Rightarrow> unit Resource" where
  "ex_create rid a =
     ex_resource rid (ex_state [] []) (Some ex_diff) (ex_provider (Inr (Some ex_diff)) a)"

text \<open>A resource to plan.\<close>

definition ex_planned :: "string \<Rightarrow> (error + ResourceDiff option) \<Rightarrow> unit Resource" where
  "ex_planned rid d = ex_resource rid (ex_state [] []) None (ex_provider d (Inr None))"

definition ex_noun :: "unit Resource \<Rightarrow> unit Noun" where
  "ex_noun r =
     \<lparr>n_Name = r_Id r,
      n_Meta = IsResource \<lparr>gr_Type = ''aws_instance'', gr_Orphan = False,
                           gr_Resource = r, gr_Config = None\<rparr>\<rparr>"

definition ex_context :: "Output list \<Rightarrow> unit Hook list \<Rightarrow> State option \<Rightarrow> unit Context" where
  "ex_context outs hooks st =
     \<lparr>c_config = \<lparr>cfg_Outputs = outs\<rparr>, c_diff = None, c_hooks = hooks, c_state = st,
      c_providers = [], c_variables = []\<rparr>"

text \<open>An output \<^verbatim>\<open>value = "${aws_instance.NAME.id}"\<close>.\<close>

definition ex_output :: "string \<Rightarrow> string \<Rightarrow> Output" where
  "ex_output oname name =
     \<lparr>o_Name = oname,
      o_RawConfig =
        \<lparr>raw_Variables =
           [(''aws_instance.'' @ name @ ''.id'',
             IsResourceVariable
               \<lparr>rv_Type = ''aws_instance'', rv_Name = name, rv_Field = ''id'',
                rv_ResourceId = ''aws_instance.'' @ name,
                rv_FullKey = ''aws_instance.'' @ name @ ''.id''\<rparr>)],
         raw_Config = [(''value'', CfgString (''${aws_instance.'' @ name @ ''.id}''))]\<rparr>\<rparr>"


definition c3_resource :: "unit Resource" where
  "c3_resource = ex_planned ''aws_instance.foo'' (Inr (Some ex_diff))"



definition c9_noun :: "unit Noun" where
  "c9_noun =
     \<lparr>n_Name = ''provider.aws'',
      n_Meta = IsResourceProvider
        \<lparr>gp_Config = Some \<lparr>raw_Variables = [(''var.region'', IsUserVariable ''region'')],
                            raw_Config = [(''region'', CfgString ''${var.region}'')]\<rparr>,
         gp_Providers = [(''aws'', ex_provider (Inr None) (Inr None))]\<rparr>\<rparr>"

text \<open>
  Two resources to create, the second of which the provider fails to apply, on a
  context whose state has one resource.
\<close>

definition c1_graph :: "unit Noun list" where
  "c1_graph =
     [ex_noun (ex_create ''aws_instance.a'' (Inr (Some (ex_state ''i-A'' [(''id'', ''i-A'')])))),
      ex_noun (ex_create ''aws_instance.b'' (Inl (Errorf ''apply failed'')))]"

definition c1_state :: State where
  "c1_state = new_State\<lparr>s_Resources := [''aws_instance.old'' \<mapsto> ex_state ''i-0'' []]\<rparr>"

text \<open>
  Two resources to plan, the second of which the provider fails to diff, on a context
  that still has the diff of an earlier plan.
\<close>

definition c10_graph :: "unit Noun list" where
  "c10_graph =
     [ex_noun (ex_planned ''aws_instance.a'' (Inr (Some ex_diff))),
      ex_noun (ex_planned ''aws_instance.b'' (Inl (Errorf ''diff failed'')))]"

definition c10_context :: "unit Context" where
  "c10_context =
     (ex_context [] [] None)
       \<lparr>c_diff := Some \<lparr>d_Resources = [''aws_instance.old'' \<mapsto> Some destroy_diff]\<rparr>\<rparr>"

text \<open>
  A resource that was never created, without diff; its provider refreshes a state to
  itself.
\<close>

definition c4_graph :: "unit Noun list" where
  "c4_graph = [ex_noun (ex_planned ''aws_instance.x'' (Inr None))]"

text \<open>
  A resource to destroy (the provider's \<^verbatim>\<open>Apply\<close> returns \<^verbatim>\<open>nil\<close>) and a resource to
  create.
\<close>

definition c4_destroy_graph :: "unit Noun list" where
  "c4_destroy_graph =
     [ex_noun (ex_resource ''aws_instance.a'' (ex_state ''i-A'' []) (Some destroy_diff)
                 (ex_provider (Inr None) (Inr None))),
      ex_noun (ex_create ''aws_instance.b'' (Inr (Some (ex_state ''i-B'' []))))]"

definition c4_state :: State where
  "c4_state = new_State\<lparr>s_Resources := [''aws_instance.a'' \<mapsto> ex_state ''i-A'' []]\<rparr>"

text \<open>One resource to create, and a hook that halts (as the stop hook does after Stop).\<close>

definition c7_graph :: "unit Noun list" where
  "c7_graph =
     [ex_noun (ex_create ''aws_instance.foo'' (Inr (Some (ex_state ''i-1'' [(''id'', ''i-1'')]))))]"

definition c7_context :: "Output list \<Rightarrow> unit Context" where
  "c7_context outs = ex_context outs [ex_hook HookActionHalt] None"




section \<open>Lemmas\<close>

lemmas ex_defs = ex_Vars_def ex_MergeDiff_def ex_subst_def ex_Interpolate_def
  ex_Interpolate_fails_def ex_env_def ex_provider_def ex_hook_def ex_diff_def ex_state_def
  ex_resource_def ex_create_def ex_planned_def ex_noun_def ex_context_def ex_output_def

lemmas walk_defs = genericWalkFn_def computeAggregateVars_def aggregate_ivars_def
  aggregate_var_def walk_resource_def interpolate_resource_def ensure_config_def
  call_callback_def walk_provider_def ret_of_error_def genericWalkFn_init_def

lemmas apply_defs = Apply_def applyWalkFn_def apply_GraphOpts_def apply_result_def
  apply_cb_def apply_finish_def apply_normalise_def install_def new_State_def
  new_ResourceState_def

lemmas plan_defs = Plan_def planWalkFn_def plan_GraphOpts_def plan_result_def plan_cb_def
  plan_finish_def plan_diff_def record_diff_def destroy_diff_def

subsection \<open>The walk\<close>

lemma Walk_append:
  "Walk fn ns1 ws0 = (RetNil, ws) \<Longrightarrow> Walk fn (ns1 @ ns2) ws0 = Walk fn ns2 ws"
  by (induction ns1 arbitrary: ws0) (auto split: prod.splits node_ret.splits)

lemma Walk_invariant:
  assumes step: "\<And>n ws ret n' ws'. P ws \<Longrightarrow> fn n ws = (ret, n', ws') \<Longrightarrow> P ws'"
  shows "P ws \<Longrightarrow> Walk fn ns ws = (ret, ws') \<Longrightarrow> P ws'"
proof (induction ns arbitrary: ws)
  case Nil
  then show ?case by simp
next
  case (Cons n ns)
  obtain r1 n1 ws1 where f: "fn n ws = (r1, n1, ws1)" by (cases "fn n ws")
  have p1: "P ws1" using step [OF Cons.prems(1) f] .
  show ?case
  proof (cases r1)
    case RetNil
    then have "Walk fn ns ws1 = (ret, ws')" using Cons.prems(2) f by simp
    then show ?thesis using Cons.IH p1 by blast
  next
    case (RetError e)
    then show ?thesis using Cons.prems(2) f p1 by simp
  next
    case (RetPanic p)
    then show ?thesis using Cons.prems(2) f p1 by simp
  qed
qed

lemma genericWalkFn_stopped:
  "ws_stop ws \<Longrightarrow> genericWalkFn env cb n ws = (RetNil, n, ws)"
  by (simp add: genericWalkFn_def)

lemma Walk_stopped:
  "ws_stop ws \<Longrightarrow> Walk (genericWalkFn env cb) ns ws = (RetNil, ws)"
  by (induction ns) (simp_all add: genericWalkFn_stopped)

lemma walk_provider_result:
  "walk_provider env m ws = (ret, m', ws') \<Longrightarrow> ws_result ws' = ws_result ws"
  by (auto simp: walk_provider_def split: option.splits prod.splits)

lemma call_callback_result:
  assumes cb: "\<And>r res w ret r' res' w'. Q res \<Longrightarrow> cb r res w = (ret, r', res', w') \<Longrightarrow> Q res'"
      and q: "Q (ws_result ws)"
      and c: "call_callback cb rn ws = (ret, rn', ws')"
  shows "Q (ws_result ws')"
proof -
  obtain cr r' res' w' where e: "cb (gr_Resource rn) (ws_result ws) (ws_world ws) = (cr, r', res', w')"
    by (cases "cb (gr_Resource rn) (ws_result ws) (ws_world ws)")
  have "Q res'" using cb [OF q e] .
  moreover have "ws_result ws' = res'"
    using c e by (auto simp: call_callback_def Let_def split: cb_ret.splits option.splits if_splits)
  ultimately show ?thesis by simp
qed

lemma walk_resource_result:
  assumes cb: "\<And>r res w ret r' res' w'. Q res \<Longrightarrow> cb r res w = (ret, r', res', w') \<Longrightarrow> Q res'"
      and q: "Q (ws_result ws)"
      and c: "walk_resource env cb rn ws = (ret, rn', ws')"
  shows "Q (ws_result ws')"
proof (cases "interpolate_resource env (ws_vars ws) rn")
  case (Pair e rn1)
  show ?thesis
  proof (cases e)
    case None
    then have "call_callback cb (ensure_config rn1) ws = (ret, rn', ws')"
      using c Pair by (simp add: walk_resource_def)
    then show ?thesis using call_callback_result [of Q cb] cb q by blast
  next
    case (Some err)
    then have "ws' = ws" using c Pair by (simp add: walk_resource_def)
    then show ?thesis using q by simp
  qed
qed

lemma genericWalkFn_result:
  assumes cb: "\<And>r res w ret r' res' w'. Q res \<Longrightarrow> cb r res w = (ret, r', res', w') \<Longrightarrow> Q res'"
      and q: "Q (ws_result ws)"
      and g: "genericWalkFn env cb n ws = (ret, n', ws')"
  shows "Q (ws_result ws')"
proof (cases "n_Name n = env_GraphRootNode env \<or> ws_stop ws")
  case True
  then have "ws' = ws" using g by (auto simp: genericWalkFn_def split: if_splits)
  then show ?thesis using q by simp
next
  case False
  obtain p vs where a: "computeAggregateVars (n_Meta n) (ws_counts ws) (ws_vars ws) = (p, vs)"
    by (cases "computeAggregateVars (n_Meta n) (ws_counts ws) (ws_vars ws)")
  have q1: "Q (ws_result (ws\<lparr>ws_vars := vs\<rparr>))" using q by simp
  show ?thesis
  proof (cases p)
    case (Some pv)
    then have "ws' = ws\<lparr>ws_vars := vs\<rparr>" using g a False by (simp add: genericWalkFn_def)
    then show ?thesis using q by simp
  next
    case None
    show ?thesis
    proof (cases "n_Meta n")
      case (IsResource rn)
      obtain r1 rn1 ws1 where w: "walk_resource env cb rn (ws\<lparr>ws_vars := vs\<rparr>) = (r1, rn1, ws1)"
        by (cases "walk_resource env cb rn (ws\<lparr>ws_vars := vs\<rparr>)")
      have "ws' = ws1" using g a False None IsResource w by (simp add: genericWalkFn_def)
      then show ?thesis using walk_resource_result [of Q cb, OF cb q1 w] by simp
    next
      case (IsResourceMeta m)
      then have "ws_result ws' = ws_result ws"
        using g a False None by (auto simp: genericWalkFn_def)
      then show ?thesis using q by simp
    next
      case (IsResourceProvider m)
      obtain r1 m1 ws1 where w: "walk_provider env m (ws\<lparr>ws_vars := vs\<rparr>) = (r1, m1, ws1)"
        by (cases "walk_provider env m (ws\<lparr>ws_vars := vs\<rparr>)")
      have "ws' = ws1" using g a False None IsResourceProvider w by (simp add: genericWalkFn_def)
      then show ?thesis using walk_provider_result [OF w] q by simp
    next
      case IsOther
      then have "ws_result ws' = ws_result ws"
        using g a False None by (auto simp: genericWalkFn_def)
      then show ?thesis using q by simp
    qed
  qed
qed

lemma Walk_result:
  assumes cb: "\<And>r res w ret r' res' w'. Q res \<Longrightarrow> cb r res w = (ret, r', res', w') \<Longrightarrow> Q res'"
      and q: "Q (ws_result ws)"
      and w: "Walk (genericWalkFn env cb) ns ws = (ret, ws')"
  shows "Q (ws_result ws')"
proof -
  have "\<And>n ws ret n' ws'. Q (ws_result ws) \<Longrightarrow> genericWalkFn env cb n ws = (ret, n', ws')
          \<Longrightarrow> Q (ws_result ws')"
    using genericWalkFn_result [of Q cb] cb by blast
  then show ?thesis using Walk_invariant [of "\<lambda>ws. Q (ws_result ws)" "genericWalkFn env cb"] q w
    by blast
qed

subsection \<open>The callbacks\<close>




lemma apply_normalise_eq:
  "apply_normalise env r rso =
     (let rs0 = (case rso of None \<Rightarrow> new_ResourceState | Some rs \<Rightarrow> rs);
          sc = scan_unknown (env_UnknownVariableValue env) (rs_Attributes rs0) (rs_Attributes rs0) []
      in (rs0\<lparr>rs_Type := rs_Type (r_State r), rs_Attributes := fst sc\<rparr>, snd sc))"
  by (simp add: apply_normalise_def Let_def case_prod_beta)

lemma plan_finish_None:
  "plan_finish env hooks r result None w =
     (case run_hooks (map (\<lambda>h. h_PostDiff h (r_Id r) None) hooks) w of
        (True, w') \<Rightarrow> (CbPanic (PanicHookAction HookActionHalt), r, result, w')
      | (False, w') \<Rightarrow> (CbReturn (env_Vars env r) None, r, result, w'))"
  by (simp add: plan_finish_def record_diff_def Let_def split: prod.splits bool.splits)


section \<open>Aggregate variables\<close>





section \<open>Plan\<close>

lemma call_callback_error:
  "cb (gr_Resource rn) (ws_result ws) (ws_world ws) = (CbReturn vars (Some err), r', result', w')
   \<Longrightarrow> call_callback cb rn ws =
         (RetError err, rn\<lparr>gr_Resource := r'\<rparr>, ws\<lparr>ws_result := result', ws_world := w'\<rparr>)"
  by (simp add: call_callback_def)

text \<open>
  C3, as the code has it. When no hook halts before the diff, the callback of Plan goes
  on with this diff: with the Destroy option, a destroy-only diff when the state has an
  ID and no diff at all when it has none (the provider is not asked, nothing is recorded
  and the resource is left as it is); without the Destroy option, a destroy-only diff
  when the resource has no configuration, and otherwise the diff of the provider. An
  error of the provider ends the callback with that error, and the visit of the node
  returns it.
\<close>

theorem plan_cb_diff_cases:
  assumes "run_hooks (map (\<lambda>h. h_PreDiff h (r_Id r) (r_State r)) hooks) w = (False, w1)"
  shows "plan_cb env hooks opts r result w =
           (if po_Destroy opts then
              (if rs_ID (r_State r) \<noteq> [] then plan_finish env hooks r result (Some destroy_diff) w1
               else
                 (case run_hooks (map (\<lambda>h. h_PostDiff h (r_Id r) None) hooks) w1 of
                    (True, w') \<Rightarrow> (CbPanic (PanicHookAction HookActionHalt), r, result, w')
                  | (False, w') \<Rightarrow> (CbReturn (env_Vars env r) None, r, result, w')))
            else if r_Config r = None then plan_finish env hooks r result (Some destroy_diff) w1
            else
              (case prov_Diff (r_Provider r) (r_State r) (r_Config r) w1 of
                 (Inl err, w2) \<Rightarrow> (CbReturn [] (Some err), r, result, w2)
               | (Inr diff, w2) \<Rightarrow> plan_finish env hooks r result diff w2)) \<and>
         (\<forall>err w2 rn ws.
            \<not> po_Destroy opts \<and> r_Config r \<noteq> None \<and>
            prov_Diff (r_Provider r) (r_State r) (r_Config r) w1 = (Inl err, w2) \<and>
            gr_Resource rn = r \<and> ws_result ws = result \<and> ws_world ws = w \<longrightarrow>
            call_callback (plan_cb env hooks opts) rn ws =
              (RetError err, rn, ws\<lparr>ws_world := w2\<rparr>))"
proof -
  have cb: "plan_cb env hooks opts r result w =
           (if po_Destroy opts then
              (if rs_ID (r_State r) \<noteq> [] then plan_finish env hooks r result (Some destroy_diff) w1
               else plan_finish env hooks r result None w1)
            else if r_Config r = None then plan_finish env hooks r result (Some destroy_diff) w1
            else
              (case prov_Diff (r_Provider r) (r_State r) (r_Config r) w1 of
                 (Inl err, w2) \<Rightarrow> (CbReturn [] (Some err), r, result, w2)
               | (Inr diff, w2) \<Rightarrow> plan_finish env hooks r result diff w2))"
    using assms by (simp add: plan_cb_def plan_diff_def)
  have "call_callback (plan_cb env hooks opts) rn ws = (RetError err, rn, ws\<lparr>ws_world := w2\<rparr>)"
    if "\<not> po_Destroy opts" "r_Config r \<noteq> None"
       "prov_Diff (r_Provider r) (r_State r) (r_Config r) w1 = (Inl err, w2)"
       "gr_Resource rn = r" "ws_result ws = result" "ws_world ws = w"
    for err w2 and rn :: "'a GraphNodeResource" and ws :: "('a, Plan) walk_state"
  proof -
    have "plan_cb env hooks opts (gr_Resource rn) (ws_result ws) (ws_world ws) =
            (CbReturn [] (Some err), r, result, w2)"
      using cb that by simp
    then have "call_callback (plan_cb env hooks opts) rn ws =
            (RetError err, rn\<lparr>gr_Resource := r\<rparr>, ws\<lparr>ws_result := result, ws_world := w2\<rparr>)"
      by (rule call_callback_error)
    then show ?thesis using that by simp
  qed
  then show ?thesis using cb by (simp add: plan_finish_None)
qed

theorem plan_cb_diff_cases_witness:
  "plan_cb (ex_env [] ex_Interpolate) [ex_hook HookActionContinue] \<lparr>po_Destroy = False\<rparr>
     (ex_planned ''aws_instance.foo'' (Inl (Errorf ''diff failed''))) (plan_result (ex_context [] [] None)) ()
   = (CbReturn [] (Some (Errorf ''diff failed'')),
      ex_planned ''aws_instance.foo'' (Inl (Errorf ''diff failed'')),
      plan_result (ex_context [] [] None), ()) \<and>
   call_callback (plan_cb (ex_env [] ex_Interpolate) [ex_hook HookActionContinue] \<lparr>po_Destroy = False\<rparr>)
     \<lparr>gr_Type = ''aws_instance'', gr_Orphan = False,
      gr_Resource = ex_planned ''aws_instance.foo'' (Inl (Errorf ''diff failed'')),
      gr_Config = None\<rparr>
     (genericWalkFn_init [] (plan_result (ex_context [] [] None)) ())
   = (RetError (Errorf ''diff failed''),
      \<lparr>gr_Type = ''aws_instance'', gr_Orphan = False,
       gr_Resource = ex_planned ''aws_instance.foo'' (Inl (Errorf ''diff failed'')),
       gr_Config = None\<rparr>,
      genericWalkFn_init [] (plan_result (ex_context [] [] None)) ())"
proof -
  have h: "run_hooks
             (map (\<lambda>h. h_PreDiff h (r_Id (ex_planned ''aws_instance.foo'' (Inl (Errorf ''diff failed''))))
                         (r_State (ex_planned ''aws_instance.foo'' (Inl (Errorf ''diff failed'')))))
                [ex_hook HookActionContinue]) () = (False, ())"
    by (simp add: ex_defs)
  show ?thesis
    using plan_cb_diff_cases [OF h, of "ex_env [] ex_Interpolate" "\<lparr>po_Destroy = False\<rparr>"
        "plan_result (ex_context [] [] None)"]
    by (simp add: ex_defs genericWalkFn_init_def)
qed

text \<open>
  C3, as the specification words it, fails: with the Destroy option, for a resource
  without ID that has a configuration, the code has no diff, where the
  specification's words give the diff of the provider.
\<close>

theorem plan_diff_counterexample:
  "plan_diff \<lparr>po_Destroy = True\<rparr> c3_resource () = (Inr None, ()) \<and>
   claimed_plan_diff \<lparr>po_Destroy = True\<rparr> c3_resource () = (Inr (Some ex_diff), ()) \<and>
   d_Resources
     (p_Diff (fst (snd (snd (plan_cb (ex_env [] ex_Interpolate) [] \<lparr>po_Destroy = True\<rparr> c3_resource
                                (plan_result (ex_context [] [] None)) ())))))
     ''aws_instance.foo'' = None"
  by (simp add: plan_defs claimed_plan_diff_def c3_resource_def ex_defs)



text \<open>The plan the callback leaves does not depend on the hooks after the diff.\<close>

lemma plan_cb_recorded:
  assumes "run_hooks (map (\<lambda>h. h_PreDiff h (r_Id r) (r_State r)) hooks) w = (False, w1)"
      and "plan_diff opts r w1 = (Inr diff, w2)"
  shows "fst (snd (snd (plan_cb env hooks opts r result w))) = record_diff (r_Id r) diff result"
  using assms
  by (simp add: plan_cb_def plan_finish_def Let_def split: prod.splits bool.splits)



section \<open>Apply\<close>





section \<open>Provider nodes\<close>

text \<open>
  C9, as the code has it. When the interpolation of the configuration of a provider node
  returns an error, the visit of the node panics with that error: it does not return it.
  No provider of the node is configured (the world is as before), and the walk ends with
  the panic.
\<close>

theorem provider_interpolation_panics:
  assumes "n_Name n \<noteq> env_GraphRootNode env" and "\<not> ws_stop ws"
      and "n_Meta n = IsResourceProvider m"
      and "computeAggregateVars (n_Meta n) (ws_counts ws) (ws_vars ws) = (None, vs)"
      and "gp_Config m = Some raw"
      and "env_Interpolate env raw (map_of vs) = (Some err, raw')"
  shows "genericWalkFn env cb n ws =
           (RetPanic (PanicErr err),
            n\<lparr>n_Meta := IsResourceProvider (m\<lparr>gp_Config := Some raw'\<rparr>)\<rparr>,
            ws\<lparr>ws_vars := vs\<rparr>) \<and>
         Walk (genericWalkFn env cb) (n # ns) ws = (RetPanic (PanicErr err), ws\<lparr>ws_vars := vs\<rparr>)"
  using assms by (simp add: genericWalkFn_def walk_provider_def)

theorem provider_interpolation_panics_witness:
  "Walk (genericWalkFn (ex_env [c9_noun] ex_Interpolate_fails)
           (apply_cb (ex_env [c9_noun] ex_Interpolate_fails) []))
     [c9_noun] (genericWalkFn_init [] new_State ())
   = (RetPanic (PanicErr (Errorf ''interpolation failed'')), genericWalkFn_init [] new_State ())"
  using provider_interpolation_panics [of c9_noun "ex_env [c9_noun] ex_Interpolate_fails"
      "genericWalkFn_init [] new_State ()" _ "[]" _ "Errorf ''interpolation failed''" _
      "apply_cb (ex_env [c9_noun] ex_Interpolate_fails) []" "[]"]
  by (simp add: walk_defs c9_noun_def ex_defs)

text \<open>
  C9, as the specification words it, fails: the visit of a provider node whose
  interpolation fails does not return the error, it panics, and so does \<^verbatim>\<open>Apply\<close>.
\<close>

theorem provider_interpolation_counterexample:
  "fst (genericWalkFn (ex_env [c9_noun] ex_Interpolate_fails)
          (apply_cb (ex_env [c9_noun] ex_Interpolate_fails) []) c9_noun
          (genericWalkFn_init [] new_State ()))
     = RetPanic (PanicErr (Errorf ''interpolation failed'')) \<and>
   fst (Apply (ex_env [c9_noun] ex_Interpolate_fails) (ex_context [] [] None) ())
     = Panics (PanicErr (Errorf ''interpolation failed''))"
  by (simp add: apply_defs walk_defs c9_noun_def ex_defs)


section \<open>The operations\<close>

lemma apply_result_resources:
  "s_Resources (apply_result c) = (case c_state c of None \<Rightarrow> Map.empty | Some st \<Rightarrow> s_Resources st)"
  by (simp add: apply_result_def new_State_def split: option.splits)

text \<open>
  C1. Take a run of \<^verbatim>\<open>Apply\<close> whose graph is built and whose walk returns (with an
  error or without). The result of the walk starts with the resources of the prior
  state. After the run the state of the context has the resources the walk left in the
  result, and it is the state \<^verbatim>\<open>Apply\<close> returns. When the walk returns an error,
  \<^verbatim>\<open>Apply\<close> returns the result of the walk with that error, and the state of the
  context is that result.
\<close>

theorem Apply_writes_state_back:
  assumes graph: "env_Graph env (apply_GraphOpts c) = Inr g"
      and walk: "Walk (applyWalkFn env c) g
                   (genericWalkFn_init (c_variables c) (apply_result c) w) = (ret, ws)"
      and ret: "ret = RetError err \<or> ret = RetNil"
  shows "ws_result (genericWalkFn_init (c_variables c) (apply_result c) w) = apply_result c \<and>
         s_Resources (apply_result c) =
           (case c_state c of None \<Rightarrow> Map.empty | Some st \<Rightarrow> s_Resources st) \<and>
         (\<exists>s. c_state (fst (snd (Apply env c w))) = Some s \<and>
              s_Resources s = s_Resources (ws_result ws) \<and>
              (\<forall>st e. fst (Apply env c w) = Returns (st, e) \<longrightarrow> st = Some s)) \<and>
         (ret = RetError err \<longrightarrow>
            Apply env c w =
              (Returns (Some (ws_result ws), Some err),
               c\<lparr>c_state := Some (ws_result ws)\<rparr>, ws_world ws))"
proof -
  have a: "ws_result (genericWalkFn_init (c_variables c) (apply_result c) w) = apply_result c"
    by (simp add: genericWalkFn_init_def)
  have b: "\<exists>s. c_state (fst (snd (Apply env c w))) = Some s \<and>
              s_Resources s = s_Resources (ws_result ws) \<and>
              (\<forall>st e. fst (Apply env c w) = Returns (st, e) \<longrightarrow> st = Some s)"
    using ret
  proof
    assume "ret = RetError err"
    then show ?thesis using graph walk by (simp add: Apply_def)
  next
    assume "ret = RetNil"
    then show ?thesis using graph walk
      by (auto simp: Apply_def Let_def split: prod.splits node_ret.splits)
  qed
  have d: "ret = RetError err \<longrightarrow>
            Apply env c w =
              (Returns (Some (ws_result ws), Some err),
               c\<lparr>c_state := Some (ws_result ws)\<rparr>, ws_world ws)"
    using graph walk by (simp add: Apply_def)
  from a b d show ?thesis by (simp add: apply_result_resources)
qed

theorem Apply_writes_state_back_witness:
  "Apply (ex_env c1_graph ex_Interpolate) (ex_context [] [] (Some c1_state)) () =
     (Returns
        (Some (new_State\<lparr>s_Resources :=
                  [''aws_instance.old'' \<mapsto> ex_state ''i-0'' [],
                   ''aws_instance.a'' \<mapsto> ex_state ''i-A'' [(''id'', ''i-A'')]]\<rparr>),
         Some (Errorf ''apply failed'')),
      (ex_context [] [] (Some c1_state))
        \<lparr>c_state := Some (new_State\<lparr>s_Resources :=
                  [''aws_instance.old'' \<mapsto> ex_state ''i-0'' [],
                   ''aws_instance.a'' \<mapsto> ex_state ''i-A'' [(''id'', ''i-A'')]]\<rparr>)\<rparr>,
      ())"
proof -
  have g: "env_Graph (ex_env c1_graph ex_Interpolate) (apply_GraphOpts (ex_context [] [] (Some c1_state)))
             = Inr c1_graph"
    by (simp add: ex_env_def)
  have w: "Walk (applyWalkFn (ex_env c1_graph ex_Interpolate) (ex_context [] [] (Some c1_state))) c1_graph
             (genericWalkFn_init (c_variables (ex_context [] [] (Some c1_state)))
                (apply_result (ex_context [] [] (Some c1_state))) ())
           = (RetError (Errorf ''apply failed''),
              \<lparr>ws_vars = [(''aws_instance.a.id'', ''i-A'')], ws_counts = [], ws_stop = False,
               ws_result = new_State\<lparr>s_Resources :=
                  [''aws_instance.old'' \<mapsto> ex_state ''i-0'' [],
                   ''aws_instance.a'' \<mapsto> ex_state ''i-A'' [(''id'', ''i-A'')]]\<rparr>,
               ws_world = ()\<rparr>)"
    by (simp add: apply_defs walk_defs c1_graph_def c1_state_def ex_defs Let_def)
  show ?thesis
    using Apply_writes_state_back [OF g w, of "Errorf ''apply failed''"]
    by simp
qed


text \<open>
  C10. When the graph of \<^verbatim>\<open>Plan\<close> is built and its walk returns an error, \<^verbatim>\<open>Plan\<close>
  returns the plan of the walk with that error, and the diff of the context is the diff
  of that plan. The graph of a following \<^verbatim>\<open>Apply\<close> is built with that diff.
\<close>

theorem Plan_sets_diff_on_error:
  assumes graph: "env_Graph env (plan_GraphOpts c) = Inr g"
      and walk: "Walk (planWalkFn env c opts) g
                   (genericWalkFn_init (c_variables c) (plan_result c) w) = (RetError err, ws)"
  shows "Plan env c opts w =
           (Returns (Some (ws_result ws), Some err),
            c\<lparr>c_diff := Some (p_Diff (ws_result ws))\<rparr>, ws_world ws) \<and>
         c_diff (fst (snd (Plan env c opts w))) = Some (p_Diff (ws_result ws)) \<and>
         apply_GraphOpts (fst (snd (Plan env c opts w))) =
           \<lparr>go_Config = c_config c, go_Diff = Some (p_Diff (ws_result ws)),
            go_Providers = c_providers c, go_State = c_state c\<rparr>"
  using assms by (simp add: Plan_def apply_GraphOpts_def)

theorem Plan_sets_diff_on_error_witness:
  "fst (Plan (ex_env c10_graph ex_Interpolate) c10_context None ()) =
     Returns (Some ((plan_result c10_context)
                \<lparr>p_Diff := \<lparr>d_Resources = [''aws_instance.a'' \<mapsto> Some ex_diff]\<rparr>\<rparr>),
              Some (Errorf ''diff failed'')) \<and>
   go_Diff (apply_GraphOpts (fst (snd (Plan (ex_env c10_graph ex_Interpolate) c10_context None ()))))
     = Some \<lparr>d_Resources = [''aws_instance.a'' \<mapsto> Some ex_diff]\<rparr>"
proof -
  have g: "env_Graph (ex_env c10_graph ex_Interpolate) (plan_GraphOpts c10_context) = Inr c10_graph"
    by (simp add: ex_env_def)
  have w: "Walk (planWalkFn (ex_env c10_graph ex_Interpolate) c10_context None) c10_graph
             (genericWalkFn_init (c_variables c10_context) (plan_result c10_context) ())
           = (RetError (Errorf ''diff failed''),
              \<lparr>ws_vars = [(''aws_instance.a.ami'', ''ami-123'')], ws_counts = [], ws_stop = False,
               ws_result = (plan_result c10_context)
                 \<lparr>p_Diff := \<lparr>d_Resources = [''aws_instance.a'' \<mapsto> Some ex_diff]\<rparr>\<rparr>,
               ws_world = ()\<rparr>)"
    by (simp add: plan_defs walk_defs c10_graph_def c10_context_def ex_defs Let_def)
  show ?thesis
    using Plan_sets_diff_on_error [OF g w]
    by (simp add: apply_GraphOpts_def)
qed


lemma install_no_empty_ID:
  assumes "\<forall>rid rs. s_Resources result rid = Some rs \<longrightarrow> rs_ID rs \<noteq> []"
  shows "\<forall>rid rs. s_Resources (install k v result) rid = Some rs \<longrightarrow> rs_ID rs \<noteq> []"
  using assms by (auto simp: install_def split: if_splits)

lemma apply_finish_result:
  "apply_finish env hooks r result rso w = (ret, r', result', w')
   \<Longrightarrow> result' = install (r_Id r) (fst (apply_normalise env r rso)) result"
  by (auto simp: apply_finish_def Let_def split: prod.splits bool.splits)

lemma apply_cb_result:
  assumes "apply_cb env hooks r result w = (ret, r', result', w')"
  shows "result' = result \<or> (\<exists>rso. result' = install (r_Id r) (fst (apply_normalise env r rso)) result)"
  using assms
  by (auto simp: apply_cb_def
           split: option.splits if_splits prod.splits sum.splits bool.splits
           dest: apply_finish_result)

lemma apply_cb_no_empty_ID:
  assumes "\<forall>rid rs. s_Resources result rid = Some rs \<longrightarrow> rs_ID rs \<noteq> []"
      and "apply_cb env hooks r result w = (ret, r', result', w')"
  shows "\<forall>rid rs. s_Resources result' rid = Some rs \<longrightarrow> rs_ID rs \<noteq> []"
  using apply_cb_result [OF assms(2)] assms(1) install_no_empty_ID by blast


lemma apply_normalise_ID:
  "rs_ID (fst (apply_normalise env r rso)) =
     rs_ID (case rso of None \<Rightarrow> new_ResourceState | Some x \<Rightarrow> x)"
  by (simp add: apply_normalise_eq Let_def)

lemma Apply_returns_walk_resources:
  assumes "Apply env c w = (Returns (Some s, e), c', w')"
  shows "\<exists>g ret ws. env_Graph env (apply_GraphOpts c) = Inr g \<and>
           Walk (applyWalkFn env c) g (genericWalkFn_init (c_variables c) (apply_result c) w) = (ret, ws) \<and>
           s_Resources s = s_Resources (ws_result ws)"
  using assms
  by (auto simp: Apply_def Let_def split: sum.splits prod.splits node_ret.splits if_splits)

text \<open>
  C4, as the code has it. The callback of Apply, once the provider has returned a state,
  leaves under the id of the resource no entry when the ID of that state is empty, and
  the state (without its unknown attributes, with the type of the resource) when it is
  not. So, when no resource of the prior state has an empty ID, no resource of the state
  that \<^verbatim>\<open>Apply\<close> returns has one.
\<close>

theorem Apply_no_empty_ID:
  assumes prior: "\<forall>st rid rs. c_state c = Some st \<and> s_Resources st rid = Some rs \<longrightarrow> rs_ID rs \<noteq> []"
      and ret: "Apply env c w = (Returns (Some s, e), c', w')"
  shows "(\<forall>rid rs. s_Resources s rid = Some rs \<longrightarrow> rs_ID rs \<noteq> []) \<and>
         (\<forall>hooks r result rso w0.
            s_Resources (fst (snd (snd (apply_finish env hooks r result rso w0)))) (r_Id r) =
              (if rs_ID (case rso of None \<Rightarrow> new_ResourceState | Some x \<Rightarrow> x) = [] then None
               else Some (fst (apply_normalise env r rso))))"
proof -
  obtain g r ws where g: "env_Graph env (apply_GraphOpts c) = Inr g"
    and w: "Walk (genericWalkFn env (apply_cb env (c_hooks c))) g
              (genericWalkFn_init (c_variables c) (apply_result c) w) = (r, ws)"
    and s: "s_Resources s = s_Resources (ws_result ws)"
    using Apply_returns_walk_resources [OF ret] unfolding applyWalkFn_def by blast
  let ?Q = "\<lambda>st. \<forall>rid rs. s_Resources st rid = Some rs \<longrightarrow> rs_ID rs \<noteq> []"
  have q0: "?Q (ws_result (genericWalkFn_init (c_variables c) (apply_result c) w))"
    using prior by (auto simp: genericWalkFn_init_def apply_result_resources split: option.splits)
  have step: "\<And>r res w ret r' res' w'. ?Q res \<Longrightarrow>
                apply_cb env (c_hooks c) r res w = (ret, r', res', w') \<Longrightarrow> ?Q res'"
    by (rule apply_cb_no_empty_ID)
  have "?Q (ws_result ws)"
    using Walk_result [of ?Q "apply_cb env (c_hooks c)", OF step q0 w] by simp
  then have a: "\<forall>rid rs. s_Resources s rid = Some rs \<longrightarrow> rs_ID rs \<noteq> []"
    using s by simp
  have b: "s_Resources (fst (snd (snd (apply_finish env hooks r result rso w0)))) (r_Id r) =
              (if rs_ID (case rso of None \<Rightarrow> new_ResourceState | Some x \<Rightarrow> x) = [] then None
               else Some (fst (apply_normalise env r rso)))"
    for hooks r result rso w0
  proof -
    obtain ret r' result' w' where f: "apply_finish env hooks r result rso w0 = (ret, r', result', w')"
      by (cases "apply_finish env hooks r result rso w0") auto
    show ?thesis
      using apply_finish_result [OF f] f apply_normalise_ID [of env r rso]
      by (simp add: install_def)
  qed
  from a b show ?thesis by blast
qed

theorem Apply_no_empty_ID_witness:
  "Apply (ex_env c4_destroy_graph ex_Interpolate) (ex_context [] [] (Some c4_state)) () =
     (Returns (Some (new_State\<lparr>s_Resources := [''aws_instance.b'' \<mapsto> ex_state ''i-B'' []]\<rparr>), None),
      (ex_context [] [] (Some c4_state))
        \<lparr>c_state := Some (new_State\<lparr>s_Resources := [''aws_instance.b'' \<mapsto> ex_state ''i-B'' []]\<rparr>)\<rparr>,
      ()) \<and>
   rs_ID (ex_state ''i-B'' []) \<noteq> []"
proof -
  have p: "\<forall>st rid rs. c_state (ex_context [] [] (Some c4_state)) = Some st \<and>
             s_Resources st rid = Some rs \<longrightarrow> rs_ID rs \<noteq> []"
    by (auto simp: ex_context_def c4_state_def new_State_def ex_state_def split: if_splits)
  have r: "Apply (ex_env c4_destroy_graph ex_Interpolate) (ex_context [] [] (Some c4_state)) () =
     (Returns (Some (new_State\<lparr>s_Resources := [''aws_instance.b'' \<mapsto> ex_state ''i-B'' []]\<rparr>), None),
      (ex_context [] [] (Some c4_state))
        \<lparr>c_state := Some (new_State\<lparr>s_Resources := [''aws_instance.b'' \<mapsto> ex_state ''i-B'' []]\<rparr>)\<rparr>,
      ())"
    by (simp add: apply_defs walk_defs c4_destroy_graph_def c4_state_def destroy_diff_def ex_defs
          Let_def)
  have "s_Resources (new_State\<lparr>s_Resources := [''aws_instance.b'' \<mapsto> ex_state ''i-B'' []]\<rparr>)
          ''aws_instance.b'' = Some (ex_state ''i-B'' [])"
    by simp
  then have "rs_ID (ex_state ''i-B'' []) \<noteq> []"
    using Apply_no_empty_ID [OF p r] by blast
  then show ?thesis using r by simp
qed

text \<open>
  C4, as the specification words it, fails: a resource that was never created comes out
  of \<^verbatim>\<open>Refresh\<close> with an empty ID in the state of the context; \<^verbatim>\<open>Apply\<close> copies it
  into its result, finds no diff for it, and returns a state that has it.
\<close>

theorem Apply_empty_ID_counterexample:
  "fst (snd (Refresh (ex_env c4_graph ex_Interpolate) (ex_context [] [] None) ())) =
     (ex_context [] [] None)
       \<lparr>c_state := Some (new_State\<lparr>s_Resources := [''aws_instance.x'' \<mapsto> ex_state [] []]\<rparr>)\<rparr> \<and>
   fst (Apply (ex_env c4_graph ex_Interpolate)
          ((ex_context [] [] None)
             \<lparr>c_state := Some (new_State\<lparr>s_Resources := [''aws_instance.x'' \<mapsto> ex_state [] []]\<rparr>)\<rparr>)
          ()) =
     Returns (Some (new_State\<lparr>s_Resources := [''aws_instance.x'' \<mapsto> ex_state [] []]\<rparr>), None) \<and>
   rs_ID (ex_state [] []) = []"
  by (simp add: apply_defs Refresh_def refreshWalkFn_def refresh_cb_def plan_GraphOpts_def
        walk_defs c4_graph_def ex_defs Let_def)


section \<open>Halt and stop\<close>

lemma genericWalkFn_halt:
  assumes "n_Name n \<noteq> env_GraphRootNode env" and "\<not> ws_stop ws"
      and "n_Meta n = IsResource rn"
      and "computeAggregateVars (n_Meta n) (ws_counts ws) (ws_vars ws) = (None, vs)"
      and "interpolate_resource env vs rn = (None, rn1)"
      and "cb (gr_Resource (ensure_config rn1)) (ws_result ws) (ws_world ws) =
             (CbPanic (PanicHookAction HookActionHalt), r', result', w')"
  shows "genericWalkFn env cb n ws =
           (RetNil, n\<lparr>n_Meta := IsResource ((ensure_config rn1)\<lparr>gr_Resource := r'\<rparr>)\<rparr>,
            ws\<lparr>ws_vars := vs, ws_result := result', ws_world := w', ws_stop := True\<rparr>)"
  using assms by (simp add: genericWalkFn_def walk_resource_def call_callback_def)

lemma Walk_halted:
  assumes "Walk (genericWalkFn env cb) ns1 ws0 = (RetNil, ws)"
      and "n_Name n \<noteq> env_GraphRootNode env" and "\<not> ws_stop ws"
      and "n_Meta n = IsResource rn"
      and "computeAggregateVars (n_Meta n) (ws_counts ws) (ws_vars ws) = (None, vs)"
      and "interpolate_resource env vs rn = (None, rn1)"
      and "cb (gr_Resource (ensure_config rn1)) (ws_result ws) (ws_world ws) =
             (CbPanic (PanicHookAction HookActionHalt), r', result', w')"
  shows "Walk (genericWalkFn env cb) (ns1 @ n # ns2) ws0 =
           (RetNil, ws\<lparr>ws_vars := vs, ws_result := result', ws_world := w', ws_stop := True\<rparr>)"
proof -
  have "Walk (genericWalkFn env cb) (n # ns2) ws =
          Walk (genericWalkFn env cb) ns2
            (ws\<lparr>ws_vars := vs, ws_result := result', ws_world := w', ws_stop := True\<rparr>)"
    using genericWalkFn_halt [where cb = cb, OF assms(2-7)] by simp
  also have "\<dots> = (RetNil, ws\<lparr>ws_vars := vs, ws_result := result', ws_world := w', ws_stop := True\<rparr>)"
    by (rule Walk_stopped) simp
  finally show ?thesis using Walk_append [OF assms(1)] by simp
qed

text \<open>
  A halt during \<^verbatim>\<open>Plan\<close> or \<^verbatim>\<open>Refresh\<close>: the operation returns what the walk had
  built when the hook halted, and no error.
\<close>

lemma Plan_halted:
  assumes "env_Graph env (plan_GraphOpts c) = Inr (ns1 @ n # ns2)"
      and "Walk (planWalkFn env c opts) ns1
             (genericWalkFn_init (c_variables c) (plan_result c) w) = (RetNil, ws)"
      and "n_Name n \<noteq> env_GraphRootNode env" and "\<not> ws_stop ws"
      and "n_Meta n = IsResource rn"
      and "computeAggregateVars (n_Meta n) (ws_counts ws) (ws_vars ws) = (None, vs)"
      and "interpolate_resource env vs rn = (None, rn1)"
      and "plan_cb env (c_hooks c) (case opts of None \<Rightarrow> \<lparr>po_Destroy = False\<rparr> | Some po \<Rightarrow> po)
             (gr_Resource (ensure_config rn1)) (ws_result ws) (ws_world ws) =
             (CbPanic (PanicHookAction HookActionHalt), r', result', w')"
  shows "Plan env c opts w =
           (Returns (Some result', None), c\<lparr>c_diff := Some (p_Diff result')\<rparr>, w')"
  using Walk_halted [where cb = "plan_cb env (c_hooks c)
                        (case opts of None \<Rightarrow> \<lparr>po_Destroy = False\<rparr> | Some po \<Rightarrow> po)" and ?ns2.0 = ns2,
          OF assms(2) [unfolded planWalkFn_def] assms(3-8)] assms(1)
  by (simp add: Plan_def planWalkFn_def)

lemma Refresh_halted:
  assumes "env_Graph env (plan_GraphOpts c) = Inr (ns1 @ n # ns2)"
      and "Walk (refreshWalkFn env c) ns1
             (genericWalkFn_init (c_variables c) new_State w) = (RetNil, ws)"
      and "n_Name n \<noteq> env_GraphRootNode env" and "\<not> ws_stop ws"
      and "n_Meta n = IsResource rn"
      and "computeAggregateVars (n_Meta n) (ws_counts ws) (ws_vars ws) = (None, vs)"
      and "interpolate_resource env vs rn = (None, rn1)"
      and "refresh_cb (c_hooks c) (gr_Resource (ensure_config rn1)) (ws_result ws) (ws_world ws) =
             (CbPanic (PanicHookAction HookActionHalt), r', result', w')"
  shows "Refresh env c w = (Returns (Some result', None), c\<lparr>c_state := Some result'\<rparr>, w')"
  using Walk_halted [where cb = "refresh_cb (c_hooks c)" and ?ns2.0 = ns2,
          OF assms(2) [unfolded refreshWalkFn_def] assms(3-8)] assms(1)
  by (simp add: Refresh_def refreshWalkFn_def)

text \<open>
  C7, as the code has it. A node visited when the stop flag is set returns at once,
  without error and without any change. When a hook halts during the callback of a
  resource node, the visit returns without error and with the stop flag set, and the walk
  returns without error, with what the walk had built when the hook halted. \<^verbatim>\<open>Apply\<close>
  then returns that state without error when the configuration has no outputs; when it
  has outputs, they are computed from that state, and \<^verbatim>\<open>Apply\<close> returns the error of
  that computation, if there is one.
\<close>

theorem Apply_halted:
  assumes graph: "env_Graph env (apply_GraphOpts c) = Inr (ns1 @ n # ns2)"
      and prefix: "Walk (applyWalkFn env c) ns1
                     (genericWalkFn_init (c_variables c) (apply_result c) w) = (RetNil, ws)"
      and node: "n_Name n \<noteq> env_GraphRootNode env" "\<not> ws_stop ws" "n_Meta n = IsResource rn"
      and agg: "computeAggregateVars (n_Meta n) (ws_counts ws) (ws_vars ws) = (None, vs)"
      and interp: "interpolate_resource env vs rn = (None, rn1)"
      and halt: "apply_cb env (c_hooks c) (gr_Resource (ensure_config rn1)) (ws_result ws)
                   (ws_world ws) = (CbPanic (PanicHookAction HookActionHalt), r', result', w')"
  shows "(\<forall>m ws'. ws_stop ws' \<longrightarrow> applyWalkFn env c m ws' = (RetNil, m, ws')) \<and>
         Walk (applyWalkFn env c) (ns1 @ n # ns2)
           (genericWalkFn_init (c_variables c) (apply_result c) w) =
           (RetNil, ws\<lparr>ws_vars := vs, ws_result := result', ws_world := w', ws_stop := True\<rparr>) \<and>
         Apply env c w =
           (if cfg_Outputs (c_config c) = []
            then (Returns (Some result', None), c\<lparr>c_state := Some result'\<rparr>, w')
            else
              (case compute_outputs env c result' (cfg_Outputs (c_config c)) Map.empty of
                 (oret, outs) \<Rightarrow>
                   ((case oret of
                       RetNil \<Rightarrow> Returns (Some (result'\<lparr>s_Outputs := Some outs\<rparr>), None)
                     | RetError err \<Rightarrow> Returns (Some (result'\<lparr>s_Outputs := Some outs\<rparr>), Some err)
                     | RetPanic p \<Rightarrow> Panics p),
                    c\<lparr>c_state := Some (result'\<lparr>s_Outputs := Some outs\<rparr>)\<rparr>, w')))"
proof -
  have a: "\<forall>m ws'. ws_stop ws' \<longrightarrow> applyWalkFn env c m ws' = (RetNil, m, ws')"
    by (simp add: applyWalkFn_def genericWalkFn_stopped)
  have b: "Walk (applyWalkFn env c) (ns1 @ n # ns2)
             (genericWalkFn_init (c_variables c) (apply_result c) w) =
           (RetNil, ws\<lparr>ws_vars := vs, ws_result := result', ws_world := w', ws_stop := True\<rparr>)"
    using Walk_halted [where cb = "apply_cb env (c_hooks c)" and ?ns2.0 = ns2,
            OF prefix [unfolded applyWalkFn_def] node agg interp halt]
    by (simp add: applyWalkFn_def)
  have d: "Apply env c w =
           (if cfg_Outputs (c_config c) = []
            then (Returns (Some result', None), c\<lparr>c_state := Some result'\<rparr>, w')
            else
              (case compute_outputs env c result' (cfg_Outputs (c_config c)) Map.empty of
                 (oret, outs) \<Rightarrow>
                   ((case oret of
                       RetNil \<Rightarrow> Returns (Some (result'\<lparr>s_Outputs := Some outs\<rparr>), None)
                     | RetError err \<Rightarrow> Returns (Some (result'\<lparr>s_Outputs := Some outs\<rparr>), Some err)
                     | RetPanic p \<Rightarrow> Panics p),
                    c\<lparr>c_state := Some (result'\<lparr>s_Outputs := Some outs\<rparr>)\<rparr>, w')))"
    using graph b by (simp add: Apply_def Let_def split: prod.splits node_ret.splits)
  from a b d show ?thesis by blast
qed

theorem Apply_halted_witness:
  "Walk (applyWalkFn (ex_env c7_graph ex_Interpolate) (c7_context [])) c7_graph
     (genericWalkFn_init [] (apply_result (c7_context [])) ()) =
     (RetNil, \<lparr>ws_vars = [], ws_counts = [], ws_stop = True, ws_result = new_State, ws_world = ()\<rparr>) \<and>
   Apply (ex_env c7_graph ex_Interpolate) (c7_context []) () =
     (Returns (Some new_State, None), (c7_context [])\<lparr>c_state := Some new_State\<rparr>, ())"
proof -
  let ?env = "ex_env c7_graph ex_Interpolate"
  let ?r = "ex_create ''aws_instance.foo'' (Inr (Some (ex_state ''i-1'' [(''id'', ''i-1'')])))"
  let ?rn = "\<lparr>gr_Type = ''aws_instance'', gr_Orphan = False, gr_Resource = ?r, gr_Config = None\<rparr>"
  let ?ws = "genericWalkFn_init (c_variables (c7_context [])) (apply_result (c7_context [])) ()"
  have g: "env_Graph ?env (apply_GraphOpts (c7_context [])) = Inr ([] @ ex_noun ?r # [])"
    by (simp add: ex_env_def c7_graph_def)
  have p: "Walk (applyWalkFn ?env (c7_context [])) [] ?ws = (RetNil, ?ws)"
    by simp
  have n1: "n_Name (ex_noun ?r) \<noteq> env_GraphRootNode ?env"
    by (simp add: ex_defs)
  have n2: "\<not> ws_stop ?ws"
    by (simp add: genericWalkFn_init_def)
  have n3: "n_Meta (ex_noun ?r) = IsResource ?rn"
    by (simp add: ex_noun_def)
  have ag: "computeAggregateVars (n_Meta (ex_noun ?r)) (ws_counts ?ws) (ws_vars ?ws) = (None, [])"
    by (simp add: walk_defs ex_noun_def c7_context_def ex_context_def)
  have ip: "interpolate_resource ?env [] ?rn = (None, ?rn)"
    by (simp add: interpolate_resource_def)
  have h: "apply_cb ?env (c_hooks (c7_context [])) (gr_Resource (ensure_config ?rn)) (ws_result ?ws)
             (ws_world ?ws) = (CbPanic (PanicHookAction HookActionHalt), ?r, new_State, ())"
    by (simp add: apply_defs walk_defs c7_context_def ex_defs)
  show ?thesis
    using Apply_halted [OF g p n1 n2 n3 ag ip h]
    by (simp add: c7_graph_def c7_context_def ex_context_def genericWalkFn_init_def
          apply_result_def new_State_def)
qed

text \<open>
  C7, as the specification words it, fails for \<^verbatim>\<open>Apply\<close>: a hook halts before the only
  resource is created, the walk returns without error with the stop flag set, and
  \<^verbatim>\<open>Apply\<close> returns the error of the output that reads the resource.
\<close>

theorem Apply_halted_counterexample:
  "Walk (applyWalkFn (ex_env c7_graph ex_Interpolate) (c7_context [ex_output ''address'' ''foo'']))
     c7_graph
     (genericWalkFn_init [] (apply_result (c7_context [ex_output ''address'' ''foo''])) ()) =
     (RetNil, \<lparr>ws_vars = [], ws_counts = [], ws_stop = True, ws_result = new_State, ws_world = ()\<rparr>) \<and>
   fst (Apply (ex_env c7_graph ex_Interpolate) (c7_context [ex_output ''address'' ''foo'']) ()) =
     Returns (Some (new_State\<lparr>s_Outputs := Some Map.empty\<rparr>),
              Some (Errorf (''Resource '' @ quoted ''aws_instance.foo'' @
                            '' not found for variable '' @ quoted ''aws_instance.foo.id'')))"
  by (simp add: apply_defs walk_defs computeVars_def computeVars_var_def c7_graph_def
        c7_context_def ex_defs Let_def)


section \<open>Outputs\<close>




text \<open>The first variable that does not resolve gives the error of \<^verbatim>\<open>computeVars\<close>.\<close>

lemma computeVars_loop_first_error:
  assumes "\<forall>x \<in> set pre. \<exists>y. computeVars_var s variables (snd x) = Inr y"
      and "computeVars_var s variables v = Inl err"
  shows "computeVars_loop s variables (pre @ (n, v) # post) vs = Inl err"
  using assms by (induction pre arbitrary: vs) auto

lemma computeVars_first_error:
  assumes "raw_Variables raw = pre @ (n, v) # post"
      and "\<forall>x \<in> set pre. \<exists>y. computeVars_var s (c_variables c) (snd x) = Inr y"
      and "computeVars_var s (c_variables c) v = Inl err"
  shows "computeVars env c s raw = (Some err, raw)"
  using assms computeVars_loop_first_error [OF assms(2,3), of n post "[]"]
  by (simp add: computeVars_def)

lemma computeVars_var_missing_resource:
  "s_Resources s (rv_ResourceId rv) = None \<Longrightarrow>
   computeVars_var s variables (IsResourceVariable rv) =
     Inl (Errorf (''Resource '' @ quoted (rv_ResourceId rv) @
                  '' not found for variable '' @ quoted (rv_FullKey rv)))"
  by (simp add: computeVars_var_def)

lemma computeVars_var_missing_attribute:
  "s_Resources s (rv_ResourceId rv) = Some r \<Longrightarrow> map_of (rs_Attributes r) (rv_Field rv) = None \<Longrightarrow>
   computeVars_var s variables (IsResourceVariable rv) =
     Inl (Errorf (''Resource '' @ quoted (rv_ResourceId rv) @
                  '' does not have attribute '' @ quoted (rv_Field rv) @
                  '' for variable '' @ quoted (rv_FullKey rv)))"
  by (simp add: computeVars_var_def)





end
